theory Spec2Isabelle
  imports Complex_Main "HOL-Library.Sublist"
begin

section \<open>Conventions of the embedding\<close>

text \<open>
  The development embeds the retrieval core of the Ottawa RAG chatbot:
  \<^verbatim>\<open>src/llm_interface.py\<close>, \<^verbatim>\<open>src/embeddings.py\<close>, \<^verbatim>\<open>src/vector_store.py\<close>,
  \<^verbatim>\<open>src/rag_pipeline.py\<close> and \<^verbatim>\<open>src/data_processor.py\<close>.

  \<^item> A Python \<^verbatim>\<open>str\<close> is a \<open>string\<close>; the characters are taken to be code points below
    256, so that \<^verbatim>\<open>str.lower\<close> and \<^verbatim>\<open>str.strip\<close> can be written out.
  \<^item> A Python \<^verbatim>\<open>float\<close> that is only compared, added and averaged is a \<open>real\<close>;
    where the code divides by a norm that may be zero, the quotient is a \<open>pyfloat\<close>
    with the infinities and \<open>NaN\<close>. Rounding and overflow are outside the model.
  \<^item> An exception is a value of type \<open>error\<close>; a function that may raise returns
    \<open>error + 'a\<close>, and each \<^verbatim>\<open>try\<close>/\<^verbatim>\<open>except Exception\<close> of the source is a
    \<^theory_text>\<open>case\<close> on that sum.
  \<^item> The libraries the code calls (the Groq client, the SentenceTransformer model,
    the ChromaDB collection, \<^verbatim>\<open>hashlib.sha256\<close>, \<^verbatim>\<open>str.format\<close>, the LangChain
    splitter, the clock) are parameters: fields of the object records or arguments.
  \<^item> What a caller can observe besides the returned value (a backend call, a sleep,
    a cache read or write, a model encoding, an index query) is recorded in a list
    of \<open>event\<close>s, in the order in which the code performs it.
\<close>

datatype error =
    KeyError string
  | IndexError string
  | ValueError string
  | RuntimeError string

text \<open>\<^verbatim>\<open>str(e)\<close>: a \<^verbatim>\<open>KeyError\<close> prints the \<^verbatim>\<open>repr\<close> of the missing key.\<close>

fun str_of_error :: "error \<Rightarrow> string" where
  "str_of_error (KeyError k) = [CHR 0x27] @ k @ [CHR 0x27]"
| "str_of_error (IndexError m) = m"
| "str_of_error (ValueError m) = m"
| "str_of_error (RuntimeError m) = m"

datatype event =
    BackendCall string
  | Sleep nat
  | CacheRead string
  | CacheWrite string
  | ModelEncode "string list"
  | IndexQuery int

definition is_backend_call :: "event \<Rightarrow> bool" where
  "is_backend_call ev = (case ev of BackendCall _ \<Rightarrow> True | _ \<Rightarrow> False)"

subsection \<open>String helpers of Python\<close>

text \<open>\<^verbatim>\<open>str.lower\<close> on code points below 256: A-Z, and the Latin-1 capitals
  0xC0-0xDE except the multiplication sign 0xD7, move up by 32.\<close>

definition lower_char :: "char \<Rightarrow> char" where
  "lower_char c =
     (let n = (of_char c :: nat)
      in if (65 \<le> n \<and> n \<le> 90) \<or> (192 \<le> n \<and> n \<le> 222 \<and> n \<noteq> 215)
         then char_of (n + 32) else c)"

definition lower :: "string \<Rightarrow> string" where
  "lower s = map lower_char s"

text \<open>\<^verbatim>\<open>str.isspace\<close> on code points below 256, and \<^verbatim>\<open>str.strip()\<close>.\<close>

definition isspace :: "char \<Rightarrow> bool" where
  "isspace c =
     (let n = (of_char c :: nat)
      in (9 \<le> n \<and> n \<le> 13) \<or> (28 \<le> n \<and> n \<le> 32) \<or> n = 133 \<or> n = 160)"

definition strip :: "string \<Rightarrow> string" where
  "strip s = rev (dropWhile isspace (rev (dropWhile isspace s)))"

text \<open>\<^verbatim>\<open>sep.join(xs)\<close>.\<close>

fun join :: "string \<Rightarrow> string list \<Rightarrow> string" where
  "join sep [] = []"
| "join sep [x] = x"
| "join sep (x # y # ys) = x @ sep @ join sep (y # ys)"

section \<open>The answer synthesizer: \<^verbatim>\<open>LLMInterface\<close>\<close>

text \<open>
  The Groq client is an oracle: \<open>c k prompt\<close> is what the \<open>k\<close>-th attempt of one
  \<^verbatim>\<open>generate_response\<close> call gets from \<^verbatim>\<open>client.chat.completions.create\<close>: an
  exception, or a completion whose message content may be \<^verbatim>\<open>None\<close>.
  The usage statistics (\<^verbatim>\<open>_update_statistics\<close>) catch their own exceptions and
  influence no returned value; they are left out.
\<close>

datatype completion = Raises error | Completion "string option"

type_synonym groq_client = "nat \<Rightarrow> string \<Rightarrow> completion"

record llm_interface =
  api_key :: "string option"
  client :: "groq_client option"




subsection \<open>Prompts\<close>

definition nl :: string where
  "nl = [CHR 0x0A]"

definition build_ottawa_prompt :: "string \<Rightarrow> string \<Rightarrow> string" where
  "build_ottawa_prompt query context =
     ''Based on the following official Ottawa city information, please answer the user's question accurately and helpfully.'' @ nl
     @ nl
     @ ''CONTEXT FROM OTTAWA.CA:'' @ nl
     @ context @ nl
     @ nl
     @ ''USER QUESTION: '' @ query @ nl
     @ nl
     @ ''INSTRUCTIONS:'' @ nl
     @ ''1. Provide a clear, accurate answer based on the context above'' @ nl
     @ ''2. If the context contains specific procedures, list them step by step'' @ nl
     @ ''3. Include relevant fees, locations, or contact information when available'' @ nl
     @ ''4. If the context doesn't fully answer the question, say so clearly'' @ nl
     @ ''5. Always prioritize official Ottawa information over general knowledge'' @ nl
     @ ''6. Be helpful and conversational while remaining factual'' @ nl
     @ ''7. If mentioning fees or procedures, note that information should be verified on ottawa.ca as it may change'' @ nl
     @ nl
     @ ''RESPONSE:''"

definition build_generic_prompt :: "string \<Rightarrow> string \<Rightarrow> string" where
  "build_generic_prompt query context =
     ''Context: '' @ context @ nl
     @ nl
     @ ''Question: '' @ query @ nl
     @ nl
     @ ''Please provide a helpful and accurate answer based on the context above. If the context doesn't contain enough information to answer the question, please say so clearly.'' @ nl
     @ nl
     @ ''Answer:''"

text \<open>The prompt selection at the head of \<^verbatim>\<open>generate_response\<close>. \<open>fmt\<close> is
  \<^verbatim>\<open>custom_prompt.format(query=..., context=...)\<close>, which raises on a malformed
  template.\<close>

definition build_prompt ::
  "(string \<Rightarrow> string \<Rightarrow> string \<Rightarrow> error + string) \<Rightarrow>
   string \<Rightarrow> string \<Rightarrow> bool \<Rightarrow> string option \<Rightarrow> error + string" where
  "build_prompt fmt query context use_ottawa_prompt custom_prompt =
     (if custom_prompt \<noteq> None \<and> custom_prompt \<noteq> Some []
      then fmt (the custom_prompt) query context
      else if use_ottawa_prompt then Inr (build_ottawa_prompt query context)
      else Inr (build_generic_prompt query context))"

subsection \<open>The fallback table\<close>

text \<open>The dictionary of \<^verbatim>\<open>_get_fallback_response\<close>, in insertion order, which is the
  order in which the loop visits it.\<close>

definition fallback_responses :: "(string \<times> string) list" where
  "fallback_responses =
     [(''marriage'', ''For marriage license information, please visit ottawa.ca or call 311.''),
      (''parking'', ''For parking information and regulations, please visit ottawa.ca or call 311.''),
      (''garbage'', ''For waste collection information, please visit ottawa.ca or call 311.''),
      (''fire'', ''For fire safety information, please visit ottawa.ca or contact Ottawa Fire Services.''),
      (''business'', ''For business licensing information, please visit ottawa.ca or call 311.'')]"

definition apology :: string where
  "apology = ''I apologize, but I'm experiencing technical difficulties. ''"

definition generic_fallback :: string where
  "generic_fallback =
     ''I apologize, but I'm unable to process your request at the moment. Please visit ottawa.ca or call 311 for assistance with Ottawa city services.''"

text \<open>The loop over the table: the first keyword that is a substring of the
  lower-cased query decides.\<close>

fun fallback_lookup :: "(string \<times> string) list \<Rightarrow> string \<Rightarrow> string" where
  "fallback_lookup [] query_lower = generic_fallback"
| "fallback_lookup ((keyword, response) # rest) query_lower =
     (if sublist keyword query_lower then apology @ response
      else fallback_lookup rest query_lower)"

definition get_fallback_response :: "string \<Rightarrow> string" where
  "get_fallback_response query = fallback_lookup fallback_responses (lower query)"

subsection \<open>\<^verbatim>\<open>LLMInterface.generate_response\<close>\<close>

text \<open>
  The retry loop, over the attempts \<^verbatim>\<open>range(max_retries)\<close> that are left. An attempt
  succeeds when the call returns a completion with a content; a raising call, and a
  \<^verbatim>\<open>None\<close> content (on which \<^verbatim>\<open>.strip()\<close> raises inside the same \<^verbatim>\<open>try\<close>), go to
  the handler: the last attempt returns the fallback, any other one sleeps
  \<^verbatim>\<open>2 ** attempt\<close> seconds and goes on. A loop that runs out of attempts without
  returning leaves the function with Python's \<^verbatim>\<open>None\<close>.
\<close>

fun retry_loop ::
  "groq_client \<Rightarrow> string \<Rightarrow> string \<Rightarrow> int \<Rightarrow> nat list \<Rightarrow> string option \<times> event list" where
  "retry_loop c prompt query max_retries [] = (None, [])"
| "retry_loop c prompt query max_retries (attempt # rest) =
     (case c attempt prompt of
        Completion (Some content) \<Rightarrow> (Some (strip content), [BackendCall prompt])
      | _ \<Rightarrow>
          if int attempt = max_retries - 1
          then (Some (get_fallback_response query), [BackendCall prompt])
          else (let (r, evs) = retry_loop c prompt query max_retries rest
                in (r, BackendCall prompt # Sleep (2 ^ attempt) # evs)))"

definition LLM_generate_response ::
  "(string \<Rightarrow> string \<Rightarrow> string \<Rightarrow> error + string) \<Rightarrow> llm_interface \<Rightarrow>
   string \<Rightarrow> string \<Rightarrow> bool \<Rightarrow> string option \<Rightarrow> int \<Rightarrow> string option \<times> event list" where
  "LLM_generate_response fmt llm query context use_ottawa_prompt custom_prompt max_retries =
     (case client llm of
        None \<Rightarrow> (Some (get_fallback_response query), [])
      | Some c \<Rightarrow>
          (case build_prompt fmt query context use_ottawa_prompt custom_prompt of
             Inl e \<Rightarrow> (Some (get_fallback_response query), [])
           | Inr prompt \<Rightarrow> retry_loop c prompt query max_retries [0..<nat max_retries]))"

section \<open>The embedding service: \<^verbatim>\<open>EmbeddingManager\<close>\<close>

type_synonym vector = "real list"
type_synonym matrix = "real list list"

text \<open>
  What a cache file holds after \<^verbatim>\<open>pickle.load\<close>: a dictionary, read with
  \<^verbatim>\<open>.get\<close> (an absent key is \<^verbatim>\<open>None\<close>) and, for the vectors, with
  \<^verbatim>\<open>['embeddings']\<close> (an absent key raises). A file that cannot be unpickled is
  \<open>Unreadable\<close>. The cache directory is a map from file paths to files.
\<close>

record cache_data =
  cd_model_name :: "string option"
  cd_text_count :: "nat option"
  cd_embeddings :: "matrix option"
  cd_embedding_dimension :: "nat option"

datatype cache_file = Unreadable | Pickled cache_data

type_synonym cache_files = "string \<rightharpoonup> cache_file"

text \<open>
  The manager. \<open>encode\<close> is \<^verbatim>\<open>self.model.encode\<close> on one sub-batch,
  \<open>sha256_hexdigest\<close> is \<^verbatim>\<open>hashlib.sha256(s.encode()).hexdigest()\<close>, and
  \<open>writable\<close> says whether opening a path for writing succeeds.
  \<open>cache_dir\<close> is \<^verbatim>\<open>None\<close> when the constructor got a falsy directory.
\<close>

record embedding_manager =
  model_name :: string
  batch_size :: int
  cache_dir :: "string option"
  embedding_dimension :: nat
  encode :: "string list \<Rightarrow> error + matrix"
  sha256_hexdigest :: "string \<Rightarrow> string"
  writable :: "string \<Rightarrow> bool"

definition generate_cache_key :: "embedding_manager \<Rightarrow> string list \<Rightarrow> string" where
  "generate_cache_key em texts =
     (let combined_text = join ''|'' texts @ ''|'' @ model_name em
      in take 16 (sha256_hexdigest em combined_text))"

definition cache_file_path :: "string \<Rightarrow> string \<Rightarrow> string" where
  "cache_file_path dir cache_key = dir @ ''/embeddings_'' @ cache_key @ ''.pkl''"

text \<open>\<^verbatim>\<open>_load_from_cache\<close>: every exception (no directory, an unreadable file, a
  dictionary without the vectors) is caught and gives \<^verbatim>\<open>None\<close>.\<close>

definition load_from_cache ::
  "embedding_manager \<Rightarrow> cache_files \<Rightarrow> string list \<Rightarrow> matrix option" where
  "load_from_cache em files texts =
     (case cache_dir em of
        None \<Rightarrow> None
      | Some dir \<Rightarrow>
          (case files (cache_file_path dir (generate_cache_key em texts)) of
             None \<Rightarrow> None
           | Some Unreadable \<Rightarrow> None
           | Some (Pickled cached_data) \<Rightarrow>
               if cd_model_name cached_data = Some (model_name em)
                  \<and> cd_text_count cached_data = Some (length texts)
               then cd_embeddings cached_data
               else None))"

text \<open>\<^verbatim>\<open>_save_to_cache\<close>: a failing write is caught and leaves the directory as it
  was.\<close>

definition save_to_cache ::
  "embedding_manager \<Rightarrow> cache_files \<Rightarrow> string list \<Rightarrow> matrix \<Rightarrow> cache_files" where
  "save_to_cache em files texts embeddings =
     (case cache_dir em of
        None \<Rightarrow> files
      | Some dir \<Rightarrow>
          (let cache_file = cache_file_path dir (generate_cache_key em texts);
               cache_data = \<lparr>cd_model_name = Some (model_name em),
                             cd_text_count = Some (length texts),
                             cd_embeddings = Some embeddings,
                             cd_embedding_dimension = Some (embedding_dimension em)\<rparr>
           in if writable em cache_file then files(cache_file \<mapsto> Pickled cache_data)
              else files))"

text \<open>The sub-batches \<^verbatim>\<open>texts[i:i + batch_size]\<close> for
  \<^verbatim>\<open>i in range(0, len(texts), batch_size)\<close>; a negative step gives an empty range.\<close>

function batches :: "nat \<Rightarrow> 'a list \<Rightarrow> 'a list list" where
  "batches n xs = (if n = 0 \<or> xs = [] then [] else take n xs # batches n (drop n xs))"
  by pat_completeness auto
termination
  by (relation "measure (\<lambda>(n, xs). length xs)") auto

definition batch_list :: "int \<Rightarrow> 'a list \<Rightarrow> 'a list list" where
  "batch_list step xs = (if step < 0 then [] else batches (nat step) xs)"

text \<open>The encoding loop: one model call for each sub-batch, stopped by the first
  call that raises.\<close>

fun encode_batches ::
  "(string list \<Rightarrow> error + matrix) \<Rightarrow> string list list \<Rightarrow> (error + matrix list) \<times> event list" where
  "encode_batches enc [] = (Inr [], [])"
| "encode_batches enc (batch_texts # rest) =
     (case enc batch_texts of
        Inl e \<Rightarrow> (Inl e, [ModelEncode batch_texts])
      | Inr batch_embeddings \<Rightarrow>
          (case encode_batches enc rest of
             (Inl e, evs) \<Rightarrow> (Inl e, ModelEncode batch_texts # evs)
           | (Inr all_embeddings, evs) \<Rightarrow>
               (Inr (batch_embeddings # all_embeddings), ModelEncode batch_texts # evs)))"

text \<open>\<^verbatim>\<open>np.vstack\<close>: raises on an empty list and on rows of different lengths.\<close>

definition vstack :: "matrix list \<Rightarrow> error + matrix" where
  "vstack all_embeddings =
     (if all_embeddings = [] then Inl (ValueError ''need at least one array to concatenate'')
      else (let rows = concat all_embeddings
            in if list_all (\<lambda>row. length row = length (hd rows)) rows then Inr rows
               else Inl (ValueError ''all the input array dimensions must match'')))"

text \<open>\<^verbatim>\<open>generate_embeddings\<close>. The handler logs and re-raises, so an exception is the
  result \<open>Inl\<close>; the cache directory and the events performed so far are returned
  next to it.\<close>

definition generate_embeddings ::
  "embedding_manager \<Rightarrow> cache_files \<Rightarrow> string list \<Rightarrow> bool \<Rightarrow>
   (error + matrix) \<times> cache_files \<times> event list" where
  "generate_embeddings em files texts use_cache =
     (if texts = [] then (Inr [], files, [])
      else
        (let caching = (use_cache \<and> cache_dir em \<noteq> None);
             cache_file = cache_file_path (case cache_dir em of None \<Rightarrow> [] | Some dir \<Rightarrow> dir)
                            (generate_cache_key em texts);
             reads = (if caching then [CacheRead cache_file] else [])
         in case (if caching then load_from_cache em files texts else None) of
              Some cached_embeddings \<Rightarrow> (Inr cached_embeddings, files, reads)
            | None \<Rightarrow>
                if batch_size em = 0
                then (Inl (ValueError ''range() arg 3 must not be zero''), files, reads)
                else
                  (case encode_batches (encode em) (batch_list (batch_size em) texts) of
                     (Inl e, evs) \<Rightarrow> (Inl e, files, reads @ evs)
                   | (Inr all_embeddings, evs) \<Rightarrow>
                       (case vstack all_embeddings of
                          Inl e \<Rightarrow> (Inl e, files, reads @ evs)
                        | Inr embeddings \<Rightarrow>
                            if caching
                            then (Inr embeddings, save_to_cache em files texts embeddings,
                                  reads @ evs @ [CacheWrite cache_file])
                            else (Inr embeddings, files, reads @ evs)))))"

subsection \<open>Cosine similarity\<close>

text \<open>
  A float that comes out of a division: a number, an infinity (a non-zero number
  divided by zero) or \<open>NaN\<close> (zero divided by zero). numpy raises nothing on a
  division by zero; it warns and stores the infinity or the \<open>NaN\<close>.
\<close>

datatype pyfloat = Num real | PosInf | NegInf | NaN

definition np_divide :: "real \<Rightarrow> real \<Rightarrow> pyfloat" where
  "np_divide x y =
     (if y \<noteq> 0 then Num (x / y)
      else if x = 0 then NaN
      else if 0 < x then PosInf else NegInf)"

fun pf_mul :: "pyfloat \<Rightarrow> pyfloat \<Rightarrow> pyfloat" where
  "pf_mul NaN _ = NaN"
| "pf_mul _ NaN = NaN"
| "pf_mul (Num x) (Num y) = Num (x * y)"
| "pf_mul (Num x) PosInf = (if x = 0 then NaN else if 0 < x then PosInf else NegInf)"
| "pf_mul (Num x) NegInf = (if x = 0 then NaN else if 0 < x then NegInf else PosInf)"
| "pf_mul PosInf (Num y) = (if y = 0 then NaN else if 0 < y then PosInf else NegInf)"
| "pf_mul NegInf (Num y) = (if y = 0 then NaN else if 0 < y then NegInf else PosInf)"
| "pf_mul PosInf PosInf = PosInf"
| "pf_mul PosInf NegInf = NegInf"
| "pf_mul NegInf PosInf = NegInf"
| "pf_mul NegInf NegInf = PosInf"

fun pf_add :: "pyfloat \<Rightarrow> pyfloat \<Rightarrow> pyfloat" where
  "pf_add NaN _ = NaN"
| "pf_add _ NaN = NaN"
| "pf_add (Num x) (Num y) = Num (x + y)"
| "pf_add PosInf NegInf = NaN"
| "pf_add NegInf PosInf = NaN"
| "pf_add PosInf _ = PosInf"
| "pf_add NegInf _ = NegInf"
| "pf_add _ PosInf = PosInf"
| "pf_add _ NegInf = NegInf"

text \<open>\<^verbatim>\<open>np.linalg.norm\<close> of one vector, and the vector divided by it.\<close>

definition l2_norm :: "vector \<Rightarrow> real" where
  "l2_norm v = sqrt (sum_list (map (\<lambda>x. x * x) v))"

definition normalized :: "vector \<Rightarrow> pyfloat list" where
  "normalized v = map (\<lambda>x. np_divide x (l2_norm v)) v"

text \<open>One entry of \<^verbatim>\<open>np.dot(doc_norms, query_norm)\<close>: the sum of the products of
  one row with the query.\<close>

fun pf_dot :: "pyfloat list \<Rightarrow> pyfloat list \<Rightarrow> pyfloat" where
  "pf_dot (x # xs) (y # ys) = pf_add (pf_mul x y) (pf_dot xs ys)"
| "pf_dot _ _ = Num 0"

text \<open>\<^verbatim>\<open>compute_similarity\<close>. \<^verbatim>\<open>np.dot\<close> raises when the rows and the query differ
  in length; the handler logs and re-raises.\<close>

definition compute_similarity :: "vector \<Rightarrow> matrix \<Rightarrow> error + pyfloat list" where
  "compute_similarity query_embedding document_embeddings =
     (let query_norm = normalized query_embedding;
          doc_norms = map normalized document_embeddings
      in if list_all (\<lambda>row. length row = length query_embedding) document_embeddings
         then Inr (map (\<lambda>row. pf_dot row query_norm) doc_norms)
         else Inl (ValueError ''shapes not aligned''))"

section \<open>The vector index: \<^verbatim>\<open>VectorStore.search\<close>\<close>

text \<open>
  A metadata dictionary maps keys to strings or integers. The ChromaDB collection
  is an oracle from the query vector and \<^verbatim>\<open>n_results\<close> to the first entries of the
  \<^verbatim>\<open>documents\<close>, \<^verbatim>\<open>metadatas\<close> and \<^verbatim>\<open>distances\<close> lists of its answer, or to an
  exception.
\<close>

datatype meta_value = MStr string | MInt int

type_synonym metadata_dict = "string \<rightharpoonup> meta_value"

record query_result =
  qr_documents :: "string list"
  qr_metadatas :: "metadata_dict list"
  qr_distances :: "real list"

record vector_store =
  current_collection :: "(vector \<Rightarrow> int \<Rightarrow> error + query_result) option"
  distance_metric :: string

text \<open>One search result is a dictionary with the keys \<^verbatim>\<open>document\<close>, \<^verbatim>\<open>metadata\<close>,
  \<^verbatim>\<open>similarity\<close> and \<^verbatim>\<open>distance\<close>; a field is \<open>None\<close> when the key is absent.\<close>

record search_result =
  document :: "string option"
  metadata :: "metadata_dict option"
  similarity :: "real option"
  distance :: "real option"

text \<open>The formatting loop of \<^verbatim>\<open>search\<close> (with \<^verbatim>\<open>include_distances=True\<close>, the only
  way the pipeline calls it).\<close>

definition format_results ::
  "string \<Rightarrow> string list \<Rightarrow> metadata_dict list \<Rightarrow> real list \<Rightarrow> search_result list" where
  "format_results metric documents metadatas distances =
     map (\<lambda>i. \<lparr>document = Some (documents ! i),
                metadata = Some (if i < length metadatas then metadatas ! i else Map.empty),
                similarity =
                  (if i < length distances
                   then Some (if metric = ''cosine'' then 1 - distances ! i else distances ! i)
                   else None),
                distance = (if i < length distances then Some (distances ! i) else None)\<rparr>)
       [0..<length documents]"

text \<open>\<^verbatim>\<open>search\<close>: no collection gives the empty list without a query; an exception of
  the query is caught and gives the empty list.\<close>

definition VectorStore_search ::
  "vector_store \<Rightarrow> vector \<Rightarrow> int \<Rightarrow> search_result list \<times> event list" where
  "VectorStore_search vs query_embedding top_k =
     (case current_collection vs of
        None \<Rightarrow> ([], [])
      | Some collection \<Rightarrow>
          (case collection query_embedding top_k of
             Inl e \<Rightarrow> ([], [IndexQuery top_k])
           | Inr results \<Rightarrow>
               (format_results (distance_metric vs) (qr_documents results)
                  (qr_metadatas results) (qr_distances results),
                [IndexQuery top_k])))"

section \<open>The orchestrator: \<^verbatim>\<open>OttawaRAGPipeline\<close>\<close>

text \<open>\<open>num_documents\<close> and \<open>num_chunks\<close> are \<^verbatim>\<open>len(self.documents)\<close> and
  \<^verbatim>\<open>len(self.chunks)\<close>, all that query handling reads of the corpus.\<close>

record rag_pipeline =
  embedding_manager :: embedding_manager
  vector_store :: vector_store
  llm_interface :: llm_interface
  num_documents :: nat
  num_chunks :: nat
  is_initialized :: bool

text \<open>One citation, and the response dictionary. The keys that only some paths
  set are options: \<^verbatim>\<open>chunks_used\<close>, \<^verbatim>\<open>error\<close> (\<open>error_text\<close>) and the pipeline
  metadata \<^verbatim>\<open>query\<close> (\<open>query_echo\<close>), \<^verbatim>\<open>timestamp\<close> (\<open>timestamp_iso\<close>),
  \<^verbatim>\<open>pipeline_version\<close>, \<^verbatim>\<open>total_documents\<close> and \<^verbatim>\<open>total_chunks\<close>. The answer is an
  option because \<^verbatim>\<open>LLMInterface.generate_response\<close> can fall off its loop with
  Python's \<^verbatim>\<open>None\<close>.\<close>

record source =
  src_url :: meta_value
  src_source_file :: meta_value
  src_similarity :: real

record response =
  answer :: "string option"
  sources :: "source list"
  confidence :: real
  chunks_used :: "nat option"
  error_text :: "string option"
  query_echo :: "string option"
  timestamp_iso :: "string option"
  pipeline_version :: "string option"
  total_documents :: "nat option"
  total_chunks :: "nat option"

text \<open>\<^verbatim>\<open>result.get('similarity', 0)\<close>.\<close>

definition get_similarity :: "search_result \<Rightarrow> real" where
  "get_similarity result = (case similarity result of None \<Rightarrow> 0 | Some s \<Rightarrow> s)"

text \<open>The threshold loop of \<^verbatim>\<open>search_relevant_context\<close>.\<close>

fun filter_by_threshold :: "real \<Rightarrow> search_result list \<Rightarrow> search_result list" where
  "filter_by_threshold similarity_threshold [] = []"
| "filter_by_threshold similarity_threshold (result # results) =
     (if get_similarity result \<ge> similarity_threshold
      then result # filter_by_threshold similarity_threshold results
      else filter_by_threshold similarity_threshold results)"

text \<open>\<^verbatim>\<open>search_relevant_context\<close>. Every exception of the stage (the embedding
  raising, \<^verbatim>\<open>[0]\<close> on an empty array) is caught and gives the empty list.\<close>

definition search_relevant_context ::
  "rag_pipeline \<Rightarrow> cache_files \<Rightarrow> string \<Rightarrow> int \<Rightarrow> real \<Rightarrow>
   search_result list \<times> cache_files \<times> event list" where
  "search_relevant_context p files query top_k similarity_threshold =
     (if \<not> is_initialized p then ([], files, [])
      else
        (case generate_embeddings (embedding_manager p) files [query] True of
           (Inl e, files', evs) \<Rightarrow> ([], files', evs)
         | (Inr [], files', evs) \<Rightarrow> ([], files', evs)
         | (Inr (query_embedding # _), files', evs) \<Rightarrow>
             (let (results, evs') = VectorStore_search (vector_store p) query_embedding top_k
              in (filter_by_threshold similarity_threshold results, files', evs @ evs'))))"

text \<open>Decimal digits of a natural number (\<^verbatim>\<open>str(n)\<close>, and \<^verbatim>\<open>{n}\<close> in an f-string).\<close>

function str_of_nat :: "nat \<Rightarrow> string" where
  "str_of_nat n =
     (if n < 10 then [char_of (48 + n)]
      else str_of_nat (n div 10) @ [char_of (48 + n mod 10)])"
  by pat_completeness auto
termination
  by (relation "measure (\<lambda>n. n)") auto

text \<open>The context: \<^verbatim>\<open>"Source {i+1}: {chunk['document']}"\<close> for each chunk, joined by
  blank lines. A chunk without the key \<^verbatim>\<open>document\<close> raises \<^verbatim>\<open>KeyError\<close>.\<close>

fun context_parts :: "nat \<Rightarrow> search_result list \<Rightarrow> error + string list" where
  "context_parts i [] = Inr []"
| "context_parts i (chunk # rest) =
     (case document chunk of
        None \<Rightarrow> Inl (KeyError ''document'')
      | Some d \<Rightarrow>
          (case context_parts (Suc i) rest of
             Inl e \<Rightarrow> Inl e
           | Inr parts \<Rightarrow> Inr ((''Source '' @ str_of_nat (i + 1) @ '': '' @ d) # parts)))"

definition format_context :: "search_result list \<Rightarrow> error + string" where
  "format_context context_chunks =
     (case context_parts 0 context_chunks of
        Inl e \<Rightarrow> Inl e
      | Inr parts \<Rightarrow> Inr (join (nl @ nl) parts))"

definition extract_source :: "search_result \<Rightarrow> source" where
  "extract_source chunk =
     (let md = (case metadata chunk of None \<Rightarrow> Map.empty | Some m \<Rightarrow> m)
      in \<lparr>src_url = (case md ''url'' of None \<Rightarrow> MStr [] | Some v \<Rightarrow> v),
          src_source_file = (case md ''source_file'' of None \<Rightarrow> MStr [] | Some v \<Rightarrow> v),
          src_similarity = get_similarity chunk\<rparr>)"

text \<open>\<^verbatim>\<open>np.mean\<close> of a list of floats; the code reaches it with a non-empty list
  only.\<close>

definition np_mean :: "real list \<Rightarrow> real" where
  "np_mean xs = sum_list xs / real (length xs)"

definition no_information_answer :: string where
  "no_information_answer =
     ''I couldn't find relevant information about that topic in my Ottawa database.''"

definition base_response :: "string option \<Rightarrow> source list \<Rightarrow> real \<Rightarrow> response" where
  "base_response a srcs conf =
     \<lparr>answer = a, sources = srcs, confidence = conf, chunks_used = None, error_text = None,
      query_echo = None, timestamp_iso = None, pipeline_version = None,
      total_documents = None, total_chunks = None\<rparr>"

text \<open>\<^verbatim>\<open>OttawaRAGPipeline.generate_response\<close>. The backend is called with the
  defaults of \<^verbatim>\<open>LLMInterface.generate_response\<close>: the Ottawa prompt, no custom
  prompt, three retries.\<close>

definition RAG_generate_response ::
  "(string \<Rightarrow> string \<Rightarrow> string \<Rightarrow> error + string) \<Rightarrow> rag_pipeline \<Rightarrow>
   string \<Rightarrow> search_result list \<Rightarrow> response \<times> event list" where
  "RAG_generate_response fmt p query context_chunks =
     (if context_chunks = [] then (base_response (Some no_information_answer) [] 0, [])
      else
        (case format_context context_chunks of
           Inl e \<Rightarrow>
             (base_response
                (Some (''I encountered an error processing your question: '' @ str_of_error e))
                [] 0, [])
         | Inr context_text \<Rightarrow>
             (let (llm_answer, evs) =
                    LLM_generate_response fmt (llm_interface p) query context_text True None 3
              in ((base_response llm_answer (map extract_source context_chunks)
                     (np_mean (map get_similarity context_chunks)))
                    \<lparr>chunks_used := Some (length context_chunks)\<rparr>,
                  evs))))"

text \<open>\<^verbatim>\<open>answer_question\<close>. The two stages catch their own exceptions; \<open>now\<close> is
  \<^verbatim>\<open>pd.Timestamp.now().isoformat()\<close> and stands for what can still raise in the
  body, which the handler of \<^verbatim>\<open>answer_question\<close> turns into the error response.\<close>

definition answer_question ::
  "(string \<Rightarrow> string \<Rightarrow> string \<Rightarrow> error + string) \<Rightarrow> (error + string) \<Rightarrow> rag_pipeline \<Rightarrow>
   cache_files \<Rightarrow> string \<Rightarrow> response \<times> cache_files \<times> event list" where
  "answer_question fmt now p files question =
     (let (relevant_chunks, files', evs) = search_relevant_context p files question 5 (1 / 10);
          (resp, evs') = RAG_generate_response fmt p question relevant_chunks
      in case now of
           Inl e \<Rightarrow>
             ((base_response
                 (Some ''I encountered an unexpected error. Please try rephrasing your question.'')
                 [] 0)
                \<lparr>error_text := Some (str_of_error e)\<rparr>,
              files', evs @ evs')
         | Inr ts \<Rightarrow>
             (resp\<lparr>query_echo := Some question, timestamp_iso := Some ts,
                   pipeline_version := Some ''1.0.0'',
                   total_documents := Some (num_documents p),
                   total_chunks := Some (num_chunks p)\<rparr>,
              files', evs @ evs'))"

section \<open>Ingestion: \<^verbatim>\<open>DataProcessor.create_chunks\<close>\<close>

text \<open>
  A raw document is a dictionary: \<^verbatim>\<open>document["content"]\<close> raises when the key is
  absent, the other keys are read with \<^verbatim>\<open>.get(key, "")\<close>.
\<close>

record raw_document =
  doc_content :: "string option"
  doc_url :: "string option"
  doc_title :: "string option"
  doc_description :: "string option"
  doc_source_file :: "string option"
  doc_scraped_at :: "string option"

text \<open>The chunk dictionary; \<open>chunk_id\<close> is its key \<^verbatim>\<open>id\<close>, and \<open>chunk_content\<close>,
  \<open>chunk_url\<close> and the like are its keys \<^verbatim>\<open>content\<close>, \<^verbatim>\<open>url\<close> and so on.\<close>

record chunk =
  chunk_id :: string
  document_id :: string
  chunk_index :: nat
  chunk_content :: string
  content_length :: nat
  chunk_url :: string
  chunk_title :: string
  chunk_description :: string
  chunk_source_file :: string
  chunk_keywords :: "string list"
  chunk_timestamp :: string
  processed_at :: string

record processing_stats =
  documents_processed :: nat
  chunks_created :: nat
  total_characters :: nat
  avg_chunk_length :: real
  processing_errors :: nat

text \<open>
  The processor. \<open>split_text\<close> is \<^verbatim>\<open>self.text_splitter.split_text\<close> (LangChain's
  recursive splitter), \<open>clock\<close> is \<^verbatim>\<open>datetime.now().isoformat()\<close>. \<open>clean_text\<close>
  and \<open>extract_keywords\<close> are the regular-expression and NLTK passes of the class;
  they are total (each catches its own exceptions), and \<^verbatim>\<open>create_chunks\<close> uses them
  as functions from a string, so they are taken as such.
\<close>

record data_processor =
  min_chunk_length :: int
  clean_text :: "string \<Rightarrow> string"
  split_text :: "string \<Rightarrow> string list"
  extract_keywords :: "string \<Rightarrow> string list"
  clock :: string
  stats :: processing_stats

text \<open>\<^verbatim>\<open>f"{n:06d}"\<close>: the decimal digits, padded with zeros on the left to six.\<close>

definition format_06d :: "nat \<Rightarrow> string" where
  "format_06d n = replicate (6 - length (str_of_nat n)) (CHR ''0'') @ str_of_nat n"

definition get_or_empty :: "string option \<Rightarrow> string" where
  "get_or_empty v = (case v of None \<Rightarrow> [] | Some s \<Rightarrow> s)"

definition make_chunk ::
  "data_processor \<Rightarrow> raw_document \<Rightarrow> nat \<Rightarrow> nat \<Rightarrow> nat \<Rightarrow> string \<Rightarrow> chunk" where
  "make_chunk dp doc doc_idx chunk_idx chunk_id_counter chunk_text =
     \<lparr>chunk_id = ''chunk_'' @ format_06d chunk_id_counter,
      document_id = ''doc_'' @ format_06d doc_idx,
      chunk_index = chunk_idx,
      chunk_content = chunk_text,
      content_length = length chunk_text,
      chunk_url = get_or_empty (doc_url doc),
      chunk_title = get_or_empty (doc_title doc),
      chunk_description = get_or_empty (doc_description doc),
      chunk_source_file = get_or_empty (doc_source_file doc),
      chunk_keywords = extract_keywords dp chunk_text,
      chunk_timestamp = get_or_empty (doc_scraped_at doc),
      processed_at = clock dp\<rparr>"

text \<open>The inner loop, \<^verbatim>\<open>for chunk_idx, chunk_text in enumerate(text_chunks)\<close>, from
  position \<open>chunk_idx\<close> on: the position advances with every candidate, the
  identifier counter only with a retained one.\<close>

fun process_text_chunks ::
  "data_processor \<Rightarrow> raw_document \<Rightarrow> nat \<Rightarrow> nat \<Rightarrow> nat \<Rightarrow> string list \<Rightarrow> chunk list" where
  "process_text_chunks dp doc doc_idx chunk_idx chunk_id_counter [] = []"
| "process_text_chunks dp doc doc_idx chunk_idx chunk_id_counter (chunk_text # rest) =
     (if int (length chunk_text) \<ge> min_chunk_length dp
      then make_chunk dp doc doc_idx chunk_idx chunk_id_counter chunk_text
             # process_text_chunks dp doc doc_idx (Suc chunk_idx) (Suc chunk_id_counter) rest
      else process_text_chunks dp doc doc_idx (Suc chunk_idx) chunk_id_counter rest)"

text \<open>The outer loop, \<^verbatim>\<open>for doc_idx, document in enumerate(documents)\<close>. A document
  without content raises \<^verbatim>\<open>KeyError\<close>, which the handler of the loop body counts; a
  document that is too short after cleaning is skipped.\<close>

fun process_documents ::
  "data_processor \<Rightarrow> nat \<Rightarrow> nat \<Rightarrow> processing_stats \<Rightarrow> raw_document list \<Rightarrow>
   chunk list \<times> processing_stats" where
  "process_documents dp doc_idx chunk_id_counter st [] = ([], st)"
| "process_documents dp doc_idx chunk_id_counter st (doc # rest) =
     (case doc_content doc of
        None \<Rightarrow>
          process_documents dp (Suc doc_idx) chunk_id_counter
            (st\<lparr>processing_errors := processing_errors st + 1\<rparr>) rest
      | Some content \<Rightarrow>
          (let cleaned_content = clean_text dp content
           in if int (length cleaned_content) < min_chunk_length dp
              then process_documents dp (Suc doc_idx) chunk_id_counter st rest
              else
                (let new_chunks = process_text_chunks dp doc doc_idx 0 chunk_id_counter
                                    (split_text dp cleaned_content);
                     (more_chunks, st') =
                        process_documents dp (Suc doc_idx)
                          (chunk_id_counter + length new_chunks)
                          (st\<lparr>documents_processed := documents_processed st + 1\<rparr>) rest
                 in (new_chunks @ more_chunks, st'))))"

definition create_chunks ::
  "data_processor \<Rightarrow> raw_document list \<Rightarrow> chunk list \<times> processing_stats" where
  "create_chunks dp docs =
     (let (all_chunks, st) = process_documents dp 0 0 (stats dp) docs;
          total = sum_list (map content_length all_chunks);
          st' = st\<lparr>chunks_created := length all_chunks, total_characters := total\<rparr>
      in (all_chunks,
          if all_chunks \<noteq> []
          then st'\<lparr>avg_chunk_length := real total / real (length all_chunks)\<rparr>
          else st'))"

section \<open>Notions used to state the properties\<close>

text \<open>The events of a run in which every attempt from \<open>k\<close> up to \<open>n - 1\<close> fails:
  a call and a sleep of \<open>2 ^ a\<close> seconds for each attempt but the last, then the last
  call.\<close>

definition backoff_trace :: "string \<Rightarrow> nat \<Rightarrow> nat \<Rightarrow> event list" where
  "backoff_trace prompt k n =
     concat (map (\<lambda>a. [BackendCall prompt, Sleep (2 ^ a)]) [k..<n - 1]) @ [BackendCall prompt]"

text \<open>The dot product and the cosine of two vectors of reals.\<close>

definition dot :: "vector \<Rightarrow> vector \<Rightarrow> real" where
  "dot xs ys = sum_list (map2 (\<lambda>x y. x * y) xs ys)"

definition cosine :: "vector \<Rightarrow> vector \<Rightarrow> real" where
  "cosine xs ys = dot xs ys / (l2_norm xs * l2_norm ys)"

text \<open>The positions, in the splitter's output, of the candidates that are long
  enough; and the same for one document, which contributes nothing when it has no
  content or is too short after cleaning.\<close>

definition retained_positions :: "int \<Rightarrow> string list \<Rightarrow> nat list" where
  "retained_positions min_len text_chunks =
     filter (\<lambda>j. min_len \<le> int (length (text_chunks ! j))) [0..<length text_chunks]"

definition document_positions :: "data_processor \<Rightarrow> raw_document \<Rightarrow> nat list" where
  "document_positions dp doc =
     (case doc_content doc of
        None \<Rightarrow> []
      | Some content \<Rightarrow>
          if int (length (clean_text dp content)) < min_chunk_length dp then []
          else retained_positions (min_chunk_length dp) (split_text dp (clean_text dp content)))"

section \<open>Example inputs\<close>

text \<open>Concrete objects on which the theorems below are instantiated. The digest is
  a stand-in for \<^verbatim>\<open>hashlib.sha256\<close>: no property below depends on which function
  it is.\<close>

definition always_raising_client :: groq_client where
  "always_raising_client = (\<lambda>attempt prompt. Raises (RuntimeError ''rate limit''))"

definition llm_unreachable :: llm_interface where
  "llm_unreachable = \<lparr>api_key = Some ''gsk_test'', client = Some always_raising_client\<rparr>"

definition scored_result :: "string \<Rightarrow> real \<Rightarrow> search_result" where
  "scored_result d s =
     \<lparr>document = Some d, metadata = Some Map.empty, similarity = Some s,
      distance = Some (1 - s)\<rparr>"

definition hit_005 :: search_result where
  "hit_005 = scored_result ''Parking permits.'' (5 / 100)"

definition hit_03 :: search_result where
  "hit_03 = scored_result ''Green bin rules.'' (3 / 10)"

definition hit_06 :: search_result where
  "hit_06 = scored_result ''Marriage license fee is $145.'' (6 / 10)"

definition constant_digest :: "string \<Rightarrow> string" where
  "constant_digest s = ''9f86d081884c7d659a2feaa0c55ad015a3bf4f1b2b0b822cd15d6c15b0f00a08''"

definition unit_encode :: "string list \<Rightarrow> error + matrix" where
  "unit_encode texts = Inr (map (\<lambda>t. [1, 0]) texts)"

definition example_manager :: embedding_manager where
  "example_manager =
     \<lparr>model_name = ''all-MiniLM-L6-v2'', batch_size = 32,
      cache_dir = Some ''data/embeddings/cache'', embedding_dimension = 2,
      encode = unit_encode, sha256_hexdigest = constant_digest, writable = (\<lambda>path. True)\<rparr>"

definition three_hits :: "vector \<Rightarrow> int \<Rightarrow> error + query_result" where
  "three_hits query_embedding n_results =
     Inr \<lparr>qr_documents = [''Marriage license fee is $145.'', ''Green bin rules.'',
                          ''Parking permits.''],
          qr_metadatas = [Map.empty, Map.empty, Map.empty],
          qr_distances = [4 / 10, 7 / 10, 95 / 100]\<rparr>"

definition example_store :: vector_store where
  "example_store = \<lparr>current_collection = Some three_hits, distance_metric = ''cosine''\<rparr>"

definition example_pipeline :: rag_pipeline where
  "example_pipeline =
     \<lparr>embedding_manager = example_manager, vector_store = example_store,
      llm_interface = llm_unreachable,
      num_documents = 1, num_chunks = 3, is_initialized = True\<rparr>"

definition failing_encode :: "string list \<Rightarrow> error + matrix" where
  "failing_encode texts = Inl (RuntimeError ''embedding model unavailable'')"

definition broken_embedding_pipeline :: rag_pipeline where
  "broken_embedding_pipeline =
     example_pipeline\<lparr>embedding_manager := example_manager\<lparr>encode := failing_encode\<rparr>\<rparr>"

text \<open>A cache file written for a model of dimension 3, found by a manager whose
  model has the same name and dimension 2.\<close>

definition stale_entry :: cache_data where
  "stale_entry =
     \<lparr>cd_model_name = Some ''all-MiniLM-L6-v2'', cd_text_count = Some 1,
      cd_embeddings = Some [[1, 2, 3]], cd_embedding_dimension = Some 3\<rparr>"

definition stale_cache :: cache_files where
  "stale_cache =
     [cache_file_path ''data/embeddings/cache'' (generate_cache_key example_manager [''hello''])
        \<mapsto> Pickled stale_entry]"

text \<open>A splitter that cuts after every full stop, as the recursive splitter does
  at its sentence separator when neighbouring sentences do not fit one chunk.\<close>

fun split_after_full_stop :: "string \<Rightarrow> string \<Rightarrow> string list" where
  "split_after_full_stop current [] = (if current = [] then [] else [current])"
| "split_after_full_stop current (c # cs) =
     (if c = CHR ''.'' then (current @ [c]) # split_after_full_stop [] cs
      else split_after_full_stop (current @ [c]) cs)"

definition example_processor :: data_processor where
  "example_processor =
     \<lparr>min_chunk_length = 10, clean_text = (\<lambda>text. text),
      split_text = split_after_full_stop [],
      extract_keywords = (\<lambda>text. []), clock = ''2024-01-01T00:00:00'',
      stats = \<lparr>documents_processed = 0, chunks_created = 0, total_characters = 0,
               avg_chunk_length = 0, processing_errors = 0\<rparr>\<rparr>"

definition example_document :: raw_document where
  "example_document =
     \<lparr>doc_content = Some ''Fees. A marriage license costs 145 dollars. It is valid for 90 days.'',
      doc_url = Some ''https://ottawa.ca/marriage'', doc_title = Some ''Marriage'',
      doc_description = None, doc_source_file = None, doc_scraped_at = None\<rparr>"

section \<open>Properties of the answer synthesizer\<close>

lemma backoff_trace_last: "Suc k = n \<Longrightarrow> backoff_trace prompt k n = [BackendCall prompt]"
  unfolding backoff_trace_def by auto

lemma backoff_trace_step:
  "Suc k < n \<Longrightarrow>
   backoff_trace prompt k n = BackendCall prompt # Sleep (2 ^ k) # backoff_trace prompt (Suc k) n"
proof -
  assume lt: "Suc k < n"
  then have "[k..<n - 1] = k # [Suc k..<n - 1]"
    using upt_rec [of k "n - 1"] by simp
  then show ?thesis
    unfolding backoff_trace_def by simp
qed

lemma retry_loop_all_raise:
  assumes "k < n" and "int n = max_retries"
    and "\<And>a. a < n \<Longrightarrow> \<exists>e. c a prompt = Raises e"
  shows "retry_loop c prompt query max_retries [k..<n] =
           (Some (get_fallback_response query), backoff_trace prompt k n)"
  using assms(1)
proof (induction "n - k" arbitrary: k)
  case 0
  then show ?case by simp
next
  case (Suc d)
  from Suc.prems obtain e where e: "c k prompt = Raises e"
    using assms(3) by blast
  have upt: "[k..<n] = k # [Suc k..<n]"
    using Suc.prems by (simp add: upt_rec)
  show ?case
  proof (cases "Suc k = n")
    case True
    then have "int k = max_retries - 1" using assms(2) by auto
    then show ?thesis
      using e upt backoff_trace_last [OF True] by simp
  next
    case False
    then have lt: "Suc k < n" using Suc.prems by simp
    have d: "d = n - Suc k" using Suc.hyps(2) by simp
    have ne: "int k \<noteq> max_retries - 1" using lt assms(2) by auto
    show ?thesis
      using Suc.hyps(1) [OF d lt] e ne
      by (simp add: upt backoff_trace_step [OF lt])
  qed
qed





text \<open>A retry bound below one leaves the loop without an attempt: no call is made
  and the function returns Python's \<^verbatim>\<open>None\<close>.\<close>

lemma generate_response_no_attempt:
  assumes "client llm = Some c"
    and "build_prompt fmt query context use_ottawa_prompt custom_prompt = Inr prompt"
    and "max_retries \<le> 0"
  shows "LLM_generate_response fmt llm query context use_ottawa_prompt custom_prompt max_retries
           = (None, [])"
  using assms by (simp add: LLM_generate_response_def)




section \<open>Properties of retrieval and of the orchestrator\<close>

lemma filter_by_threshold_filter:
  "filter_by_threshold t results = filter (\<lambda>r. t \<le> get_similarity r) results"
  by (induction results) simp_all

lemma search_relevant_context_success:
  assumes "is_initialized p"
    and "generate_embeddings (embedding_manager p) files query_texts True
           = (Inr (query_embedding # others), files', evs)"
    and "query_texts = [query]"
  shows "fst (search_relevant_context p files query top_k t)
           = filter_by_threshold t
               (fst (VectorStore_search (vector_store p) query_embedding top_k))"
  using assms by (simp add: search_relevant_context_def split: prod.splits)

lemma get_similarity_scored: "get_similarity (scored_result d s) = s"
  by (simp add: get_similarity_def scored_result_def)

lemma batches_single: "0 < n \<Longrightarrow> batches n [x] = [[x]]"
  by (subst batches.simps) (simp add: batches.simps [of n "[]"])

lemma example_query_embedding:
  "generate_embeddings example_manager Map.empty [q] True
     = (Inr [[1, 0]], save_to_cache example_manager Map.empty [q] [[1, 0]],
        [CacheRead (cache_file_path ''data/embeddings/cache'' (generate_cache_key example_manager [q])),
         ModelEncode [q],
         CacheWrite (cache_file_path ''data/embeddings/cache'' (generate_cache_key example_manager [q]))])"
  by (simp add: generate_embeddings_def example_manager_def load_from_cache_def batch_list_def
      batches_single unit_encode_def vstack_def Let_def)

lemma example_search:
  "map similarity (fst (VectorStore_search example_store [1, 0] 5))
     = [Some (6 / 10), Some (3 / 10), Some (5 / 100)]"
  by (simp add: VectorStore_search_def example_store_def three_hits_def format_results_def
      upt_rec numeral_3_eq_3)

text \<open>
  \<^bold>\<open>Claim C2.\<close> For every list of search results and every threshold, the
  threshold loop of the orchestrator returns the results whose similarity (0 when
  the key is absent) is not below the threshold, in their order; with the
  similarities 0.05, 0.3 and 0.6 and the threshold 0.1 it keeps the results scored
  0.3 and 0.6; and when the query embedding is computed,
  \<^verbatim>\<open>search_relevant_context\<close> returns that selection of the index's results.
\<close>

theorem threshold_filter_retains_exactly:
  "filter_by_threshold similarity_threshold results
     = filter (\<lambda>result. \<not> get_similarity result < similarity_threshold) results
   \<and> filter_by_threshold (1 / 10) [hit_005, hit_03, hit_06] = [hit_03, hit_06]
   \<and> (is_initialized p \<and>
        generate_embeddings (embedding_manager p) files [query] True
          = (Inr (query_embedding # others), files', evs)
      \<longrightarrow> fst (search_relevant_context p files query top_k similarity_threshold)
            = filter (\<lambda>result. \<not> get_similarity result < similarity_threshold)
                (fst (VectorStore_search (vector_store p) query_embedding top_k)))"
proof -
  have a: "filter_by_threshold similarity_threshold rs
             = filter (\<lambda>result. \<not> get_similarity result < similarity_threshold) rs" for rs
    by (simp add: filter_by_threshold_filter not_less)
  have b: "filter_by_threshold (1 / 10) [hit_005, hit_03, hit_06] = [hit_03, hit_06]"
    by (simp add: hit_005_def hit_03_def hit_06_def get_similarity_scored)
  have c: "is_initialized p \<and>
        generate_embeddings (embedding_manager p) files [query] True
          = (Inr (query_embedding # others), files', evs)
      \<longrightarrow> fst (search_relevant_context p files query top_k similarity_threshold)
            = filter (\<lambda>result. \<not> get_similarity result < similarity_threshold)
                (fst (VectorStore_search (vector_store p) query_embedding top_k))"
    using search_relevant_context_success [of p files "[query]" query_embedding others files' evs query]
    by (simp add: a)
  show ?thesis
    by (intro conjI a b c)
qed

theorem threshold_filter_retains_exactly_witness:
  "map similarity (fst (search_relevant_context example_pipeline Map.empty
       ''What is the marriage license fee?'' 5 (1 / 10)))
     = [Some (6 / 10), Some (3 / 10)]"
proof -
  let ?q = "''What is the marriage license fee?''"
  have i: "is_initialized example_pipeline"
    by (simp add: example_pipeline_def)
  have g: "generate_embeddings (embedding_manager example_pipeline) Map.empty [?q] True
             = (Inr ([1, 0] # []), save_to_cache example_manager Map.empty [?q] [[1, 0]],
        [CacheRead (cache_file_path ''data/embeddings/cache'' (generate_cache_key example_manager [?q])),
         ModelEncode [?q],
         CacheWrite (cache_file_path ''data/embeddings/cache'' (generate_cache_key example_manager [?q]))])"
    using example_query_embedding [of ?q] by (simp add: example_pipeline_def)
  have "fst (search_relevant_context example_pipeline Map.empty ?q 5 (1 / 10))
          = filter (\<lambda>result. \<not> get_similarity result < 1 / 10)
              (fst (VectorStore_search (vector_store example_pipeline) [1, 0] 5))"
    using threshold_filter_retains_exactly [of "1 / 10" "[]" example_pipeline Map.empty ?q "[1, 0]" "[]"] i g
    by blast
  then show ?thesis
    by (simp add: example_pipeline_def VectorStore_search_def example_store_def three_hits_def
        format_results_def upt_rec numeral_3_eq_3 get_similarity_def)
qed


text \<open>
  \<^bold>\<open>Claim C10.\<close> On the empty batch \<^verbatim>\<open>generate_embeddings\<close> returns the empty array,
  leaves the cache directory as it is and performs no event: no cache read, no
  model encoding, no cache write.
\<close>

theorem empty_batch_no_work:
  "generate_embeddings em files [] use_cache = (Inr [], files, [])"
  by (simp add: generate_embeddings_def)

lemma context_parts_ok:
  "list_all (\<lambda>c. document c \<noteq> None) cs \<Longrightarrow> \<exists>parts. context_parts i cs = Inr parts"
proof (induction cs arbitrary: i)
  case Nil
  then show ?case by simp
next
  case (Cons c cs)
  then obtain d where d: "document c = Some d" by auto
  from Cons.prems have "list_all (\<lambda>c. document c \<noteq> None) cs" by simp
  from Cons.IH [OF this] obtain parts where "context_parts (Suc i) cs = Inr parts"
    by blast
  with d show ?case by simp
qed

lemma format_context_ok:
  "list_all (\<lambda>c. document c \<noteq> None) cs \<Longrightarrow> \<exists>t. format_context cs = Inr t"
  using context_parts_ok [of cs 0] by (auto simp: format_context_def)

lemma RAG_generate_response_success:
  assumes "context_chunks \<noteq> []" and "format_context context_chunks = Inr context_text"
  shows "RAG_generate_response fmt p query context_chunks
           = ((base_response
                 (fst (LLM_generate_response fmt (llm_interface p) query context_text True None 3))
                 (map extract_source context_chunks)
                 (np_mean (map get_similarity context_chunks)))
                \<lparr>chunks_used := Some (length context_chunks)\<rparr>,
              snd (LLM_generate_response fmt (llm_interface p) query context_text True None 3))"
  using assms by (simp add: RAG_generate_response_def split: prod.splits)

lemma RAG_generate_response_confidence:
  assumes "context_chunks \<noteq> []" and "list_all (\<lambda>c. document c \<noteq> None) context_chunks"
  shows "confidence (fst (RAG_generate_response fmt p query context_chunks))
           = np_mean (map get_similarity context_chunks)"
proof -
  obtain t where "format_context context_chunks = Inr t"
    using format_context_ok [OF assms(2)] by blast
  then show ?thesis
    using assms(1) by (simp add: RAG_generate_response_success base_response_def)
qed

lemma encode_batches_no_backend:
  "filter is_backend_call (snd (encode_batches enc bs)) = []"
  by (induction bs) (auto simp: is_backend_call_def split: sum.splits prod.splits)

lemma generate_embeddings_no_backend:
  "filter is_backend_call (snd (snd (generate_embeddings em files texts use_cache))) = []"
proof -
  have "filter is_backend_call (snd (encode_batches (encode em) (batch_list (batch_size em) texts))) = []"
    by (rule encode_batches_no_backend)
  then show ?thesis
    by (auto simp: generate_embeddings_def Let_def is_backend_call_def
        split: option.splits sum.splits prod.splits)
qed

lemma VectorStore_search_no_backend:
  "filter is_backend_call (snd (VectorStore_search vs qe top_k)) = []"
  by (simp add: VectorStore_search_def is_backend_call_def split: option.splits sum.splits)

lemma search_relevant_context_fst:
  "fst (search_relevant_context p files query top_k t)
     = (if \<not> is_initialized p then []
        else case fst (generate_embeddings (embedding_manager p) files [query] True) of
               Inl e \<Rightarrow> []
             | Inr [] \<Rightarrow> []
             | Inr (query_embedding # _) \<Rightarrow>
                 filter_by_threshold t
                   (fst (VectorStore_search (vector_store p) query_embedding top_k)))"
  by (simp add: search_relevant_context_def split: prod.splits sum.splits list.splits)

lemma search_relevant_context_events:
  "snd (snd (search_relevant_context p files query top_k t))
     = (if \<not> is_initialized p then []
        else snd (snd (generate_embeddings (embedding_manager p) files [query] True))
             @ (case fst (generate_embeddings (embedding_manager p) files [query] True) of
                  Inl e \<Rightarrow> []
                | Inr [] \<Rightarrow> []
                | Inr (query_embedding # _) \<Rightarrow>
                    snd (VectorStore_search (vector_store p) query_embedding top_k)))"
  by (simp add: search_relevant_context_def split: prod.splits sum.splits list.splits)

lemma search_relevant_context_no_backend:
  "filter is_backend_call (snd (snd (search_relevant_context p files query top_k t))) = []"
proof -
  have ge: "filter is_backend_call
              (snd (snd (generate_embeddings (embedding_manager p) files [query] True))) = []"
    by (rule generate_embeddings_no_backend)
  show ?thesis
    using ge
    by (simp add: search_relevant_context_events VectorStore_search_no_backend
        split: sum.splits list.splits)
qed

lemma VectorStore_search_documents:
  "list_all (\<lambda>c. document c \<noteq> None) (fst (VectorStore_search vs qe top_k))"
  by (simp add: VectorStore_search_def format_results_def list_all_iff
      split: option.splits sum.splits)

lemma search_relevant_context_documents:
  "list_all (\<lambda>c. document c \<noteq> None) (fst (search_relevant_context p files query top_k t))"
proof -
  have "list_all (\<lambda>c. document c \<noteq> None)
          (filter_by_threshold t (fst (VectorStore_search (vector_store p) qe top_k)))" for qe
    using VectorStore_search_documents [of "vector_store p" qe top_k]
    by (simp add: filter_by_threshold_filter list_all_iff)
  then show ?thesis
    by (simp add: search_relevant_context_fst split: sum.splits list.splits)
qed

lemma search_relevant_context_not_initialized:
  "\<not> is_initialized p \<Longrightarrow> fst (search_relevant_context p files query top_k t) = []"
  by (simp add: search_relevant_context_def)

lemma search_relevant_context_embedding_raises:
  "fst (generate_embeddings (embedding_manager p) files [query] True) = Inl err \<Longrightarrow>
   fst (search_relevant_context p files query top_k t) = []"
  by (simp add: search_relevant_context_fst)

lemma VectorStore_search_raises:
  "\<forall>coll. current_collection vs = Some coll \<longrightarrow> (\<exists>err. coll qe top_k = Inl err) \<Longrightarrow>
   fst (VectorStore_search vs qe top_k) = []"
  by (auto simp: VectorStore_search_def split: option.splits sum.splits)

lemma search_relevant_context_index_raises:
  assumes "\<forall>coll. current_collection (vector_store p) = Some coll \<longrightarrow>
             (\<forall>qe. \<exists>err. coll qe top_k = Inl err)"
  shows "fst (search_relevant_context p files query top_k t) = []"
proof -
  have "fst (VectorStore_search (vector_store p) qe top_k) = []" for qe
    using assms by (intro VectorStore_search_raises) blast
  then have "filter_by_threshold t (fst (VectorStore_search (vector_store p) qe top_k)) = []" for qe
    by simp
  then show ?thesis
    by (simp add: search_relevant_context_fst split: sum.splits list.splits)
qed

lemma answer_question_body_raises:
  "fst (answer_question fmt (Inl e) p files question)
     = (base_response
          (Some ''I encountered an unexpected error. Please try rephrasing your question.'') [] 0)
         \<lparr>error_text := Some (str_of_error e)\<rparr>"
  by (simp add: answer_question_def split: prod.splits)

lemma answer_question_returns:
  "fst (answer_question fmt (Inr ts) p files question)
     = (fst (RAG_generate_response fmt p question
               (fst (search_relevant_context p files question 5 (1 / 10)))))
         \<lparr>query_echo := Some question, timestamp_iso := Some ts,
          pipeline_version := Some ''1.0.0'',
          total_documents := Some (num_documents p),
          total_chunks := Some (num_chunks p)\<rparr>"
  by (simp add: answer_question_def split: prod.splits)

lemma answer_question_events:
  "snd (snd (answer_question fmt now p files question))
     = snd (snd (search_relevant_context p files question 5 (1 / 10)))
       @ snd (RAG_generate_response fmt p question
               (fst (search_relevant_context p files question 5 (1 / 10))))"
  by (simp add: answer_question_def split: prod.splits sum.splits)

lemma RAG_generate_response_no_error_field:
  "error_text (fst (RAG_generate_response fmt p query context_chunks)) = None"
  by (simp add: RAG_generate_response_def base_response_def split: sum.splits prod.splits)

lemma RAG_generate_response_empty:
  "RAG_generate_response fmt p query [] = (base_response (Some no_information_answer) [] 0, [])"
  by (simp add: RAG_generate_response_def)


text \<open>
  \<^bold>\<open>Claim C3.\<close> For every query and every non-empty list of retained chunks (each
  with its document, as the chunks that retrieval returns always are), the
  confidence of the response of \<^verbatim>\<open>generate_response\<close> is the sum of the chunks'
  similarities divided by their number; for the empty list it is 0.
\<close>

theorem confidence_is_mean_similarity:
  "(context_chunks \<noteq> [] \<and> list_all (\<lambda>chunk. document chunk \<noteq> None) context_chunks \<longrightarrow>
      confidence (fst (RAG_generate_response fmt p query context_chunks))
        = sum_list (map get_similarity context_chunks) / real (length context_chunks))
   \<and> confidence (fst (RAG_generate_response fmt p query [])) = 0
   \<and> list_all (\<lambda>chunk. document chunk \<noteq> None)
        (fst (search_relevant_context p' files question top_k similarity_threshold))"
proof -
  have a: "context_chunks \<noteq> [] \<and> list_all (\<lambda>chunk. document chunk \<noteq> None) context_chunks \<longrightarrow>
      confidence (fst (RAG_generate_response fmt p query context_chunks))
        = sum_list (map get_similarity context_chunks) / real (length context_chunks)"
    using RAG_generate_response_confidence [of context_chunks fmt p query]
    by (simp add: np_mean_def)
  have b: "confidence (fst (RAG_generate_response fmt p query [])) = 0"
    by (simp add: RAG_generate_response_empty base_response_def)
  show ?thesis
    by (intro conjI a b search_relevant_context_documents)
qed

theorem confidence_is_mean_similarity_witness:
  "confidence (fst (RAG_generate_response (\<lambda>t q c. Inr t) example_pipeline
      ''What is the marriage license fee?'' [hit_03, hit_06])) = 45 / 100"
proof -
  have h: "[hit_03, hit_06] \<noteq> [] \<and> list_all (\<lambda>chunk. document chunk \<noteq> None) [hit_03, hit_06]"
    by (simp add: hit_03_def hit_06_def scored_result_def)
  have "confidence (fst (RAG_generate_response (\<lambda>t q c. Inr t) example_pipeline
      ''What is the marriage license fee?'' [hit_03, hit_06]))
      = sum_list (map get_similarity [hit_03, hit_06]) / real (length [hit_03, hit_06])"
    using confidence_is_mean_similarity [of "[hit_03, hit_06]"] h by blast
  then show ?thesis
    by (simp add: hit_03_def hit_06_def get_similarity_scored)
qed

text \<open>
  \<^bold>\<open>Claim C4.\<close> With no context chunk \<^verbatim>\<open>generate_response\<close> returns the fixed
  no-information answer, no sources and confidence 0, and performs no event, so the
  backend is not called. This is what it does when every result is below the
  threshold; and when retrieval returns nothing, \<^verbatim>\<open>answer_question\<close> gives that
  answer, no sources and confidence 0, with no backend call among its events.
\<close>

theorem no_context_response:
  "answer (fst (RAG_generate_response fmt p query [])) = Some no_information_answer
   \<and> sources (fst (RAG_generate_response fmt p query [])) = []
   \<and> confidence (fst (RAG_generate_response fmt p query [])) = 0
   \<and> snd (RAG_generate_response fmt p query []) = []
   \<and> (list_all (\<lambda>result. get_similarity result < similarity_threshold) results \<longrightarrow>
        RAG_generate_response fmt p query (filter_by_threshold similarity_threshold results)
          = RAG_generate_response fmt p query [])
   \<and> (fst (search_relevant_context p files question 5 (1 / 10)) = [] \<longrightarrow>
        answer (fst (answer_question fmt (Inr ts) p files question)) = Some no_information_answer
        \<and> sources (fst (answer_question fmt now p files question)) = []
        \<and> confidence (fst (answer_question fmt now p files question)) = 0
        \<and> filter is_backend_call (snd (snd (answer_question fmt now p files question))) = [])"
proof -
  have none: "list_all (\<lambda>result. get_similarity result < similarity_threshold) results \<longrightarrow>
        RAG_generate_response fmt p query (filter_by_threshold similarity_threshold results)
          = RAG_generate_response fmt p query []"
  proof
    assume "list_all (\<lambda>result. get_similarity result < similarity_threshold) results"
    then have "filter_by_threshold similarity_threshold results = []"
      by (auto simp: filter_by_threshold_filter list_all_iff filter_empty_conv)
    then show "RAG_generate_response fmt p query (filter_by_threshold similarity_threshold results)
                 = RAG_generate_response fmt p query []"
      by simp
  qed
  have aq: "fst (search_relevant_context p files question 5 (1 / 10)) = [] \<longrightarrow>
        answer (fst (answer_question fmt (Inr ts) p files question)) = Some no_information_answer
        \<and> sources (fst (answer_question fmt now p files question)) = []
        \<and> confidence (fst (answer_question fmt now p files question)) = 0
        \<and> filter is_backend_call (snd (snd (answer_question fmt now p files question))) = []"
  proof
    assume empty: "fst (search_relevant_context p files question 5 (1 / 10)) = []"
    have a: "answer (fst (answer_question fmt (Inr ts) p files question))
               = Some no_information_answer"
      by (simp add: answer_question_returns empty RAG_generate_response_empty base_response_def)
    have b: "sources (fst (answer_question fmt now p files question)) = []
             \<and> confidence (fst (answer_question fmt now p files question)) = 0"
    proof (cases now)
      case (Inl e)
      then show ?thesis
        by (simp add: answer_question_body_raises base_response_def)
    next
      case (Inr ts')
      then show ?thesis
        by (simp add: answer_question_returns empty RAG_generate_response_empty base_response_def)
    qed
    have c: "filter is_backend_call (snd (snd (answer_question fmt now p files question))) = []"
      by (simp add: answer_question_events empty RAG_generate_response_empty
          search_relevant_context_no_backend)
    from a b c show "answer (fst (answer_question fmt (Inr ts) p files question))
          = Some no_information_answer
        \<and> sources (fst (answer_question fmt now p files question)) = []
        \<and> confidence (fst (answer_question fmt now p files question)) = 0
        \<and> filter is_backend_call (snd (snd (answer_question fmt now p files question))) = []"
      by simp
  qed
  show ?thesis
    using none aq by (simp add: RAG_generate_response_empty base_response_def)
qed

theorem no_context_response_witness:
  "RAG_generate_response (\<lambda>t q c. Inr t) example_pipeline ''Where is the zoo?''
       (filter_by_threshold (1 / 10) [hit_005])
     = RAG_generate_response (\<lambda>t q c. Inr t) example_pipeline ''Where is the zoo?'' []
   \<and> answer (fst (answer_question (\<lambda>t q c. Inr t) (Inr ''2024-01-01T00:00:00'')
                  broken_embedding_pipeline Map.empty ''Where is the zoo?''))
       = Some no_information_answer
   \<and> filter is_backend_call
        (snd (snd (answer_question (\<lambda>t q c. Inr t) (Inr ''2024-01-01T00:00:00'')
                     broken_embedding_pipeline Map.empty ''Where is the zoo?''))) = []"
proof -
  have low: "list_all (\<lambda>result. get_similarity result < 1 / 10) [hit_005]"
    by (simp add: hit_005_def get_similarity_scored)
  have empty: "fst (search_relevant_context broken_embedding_pipeline Map.empty
                      ''Where is the zoo?'' 5 (1 / 10)) = []"
    by code_simp
  note th = no_context_response [of "\<lambda>t q c. Inr t" example_pipeline "''Where is the zoo?''"
      "1 / 10" "[hit_005]"]
  note th' = no_context_response [of "\<lambda>t q c. Inr t" broken_embedding_pipeline
      "''Where is the zoo?''" "1 / 10" "[]" Map.empty "''Where is the zoo?''"
      "''2024-01-01T00:00:00''" "Inr ''2024-01-01T00:00:00''"]
  show ?thesis
    using th th' low empty by blast
qed


lemma always_raising_fallback:
  assumes "client llm = Some c" and "\<forall>a prompt. \<exists>err. c a prompt = Raises err"
  shows "fst (LLM_generate_response fmt llm query context True None 3)
           = Some (get_fallback_response query)"
proof -
  have p: "build_prompt fmt query context True None = Inr (build_ottawa_prompt query context)"
    by (simp add: build_prompt_def)
  have "retry_loop c (build_ottawa_prompt query context) query 3 [0..<3]
          = (Some (get_fallback_response query), backoff_trace (build_ottawa_prompt query context) 0 3)"
    by (rule retry_loop_all_raise) (use assms(2) in auto)
  then show ?thesis
    using assms(1) p by (simp add: LLM_generate_response_def)
qed

text \<open>
  \<^bold>\<open>Claim C1, as the code has it.\<close> \<^verbatim>\<open>answer_question\<close> returns a response on every
  input. When its own body raises, the response has the error field and confidence
  0. When the body does not raise, the response has no error field, whatever
  happened in the stages: a failure of retrieval (pipeline not initialised, the
  embedding raising, no collection or a raising index query) is caught in
  \<^verbatim>\<open>search_relevant_context\<close> and gives the no-information answer with no sources
  and confidence 0; a backend that raises on every attempt gives the fallback
  answer, with the mean similarity of the retained chunks as confidence.
\<close>

theorem answer_question_failure_handling:
  "answer (fst (answer_question fmt (Inl e) p files question))
       = Some ''I encountered an unexpected error. Please try rephrasing your question.''
   \<and> sources (fst (answer_question fmt (Inl e) p files question)) = []
   \<and> confidence (fst (answer_question fmt (Inl e) p files question)) = 0
   \<and> error_text (fst (answer_question fmt (Inl e) p files question)) = Some (str_of_error e)
   \<and> error_text (fst (answer_question fmt (Inr ts) p files question)) = None
   \<and> ((\<not> is_initialized p
        \<or> (\<exists>err. fst (generate_embeddings (embedding_manager p) files [question] True) = Inl err)
        \<or> (\<forall>coll. current_collection (vector_store p) = Some coll \<longrightarrow>
              (\<forall>qe. \<exists>err. coll qe 5 = Inl err)))
       \<longrightarrow> answer (fst (answer_question fmt (Inr ts) p files question))
             = Some no_information_answer
           \<and> sources (fst (answer_question fmt (Inr ts) p files question)) = []
           \<and> confidence (fst (answer_question fmt (Inr ts) p files question)) = 0)
   \<and> (client (llm_interface p) = Some c \<and> (\<forall>a prompt. \<exists>err. c a prompt = Raises err)
        \<and> fst (search_relevant_context p files question 5 (1 / 10)) \<noteq> []
       \<longrightarrow> answer (fst (answer_question fmt (Inr ts) p files question))
             = Some (get_fallback_response question)
           \<and> confidence (fst (answer_question fmt (Inr ts) p files question))
             = sum_list (map get_similarity (fst (search_relevant_context p files question 5 (1 / 10))))
               / real (length (fst (search_relevant_context p files question 5 (1 / 10)))))"
proof -
  let ?chunks = "fst (search_relevant_context p files question 5 (1 / 10))"
  have body: "answer (fst (answer_question fmt (Inl e) p files question))
       = Some ''I encountered an unexpected error. Please try rephrasing your question.''
   \<and> sources (fst (answer_question fmt (Inl e) p files question)) = []
   \<and> confidence (fst (answer_question fmt (Inl e) p files question)) = 0
   \<and> error_text (fst (answer_question fmt (Inl e) p files question)) = Some (str_of_error e)"
    by (simp add: answer_question_body_raises base_response_def)
  have noerr: "error_text (fst (answer_question fmt (Inr ts) p files question)) = None"
    by (simp add: answer_question_returns RAG_generate_response_no_error_field)
  have retrieval: "(\<not> is_initialized p
        \<or> (\<exists>err. fst (generate_embeddings (embedding_manager p) files [question] True) = Inl err)
        \<or> (\<forall>coll. current_collection (vector_store p) = Some coll \<longrightarrow>
              (\<forall>qe. \<exists>err. coll qe 5 = Inl err)))
       \<longrightarrow> answer (fst (answer_question fmt (Inr ts) p files question))
             = Some no_information_answer
           \<and> sources (fst (answer_question fmt (Inr ts) p files question)) = []
           \<and> confidence (fst (answer_question fmt (Inr ts) p files question)) = 0"
  proof
    assume "\<not> is_initialized p
        \<or> (\<exists>err. fst (generate_embeddings (embedding_manager p) files [question] True) = Inl err)
        \<or> (\<forall>coll. current_collection (vector_store p) = Some coll \<longrightarrow>
              (\<forall>qe. \<exists>err. coll qe 5 = Inl err))"
    then have "?chunks = []"
      using search_relevant_context_not_initialized [of p files question 5 "1 / 10"]
        search_relevant_context_embedding_raises [of p files question _ 5 "1 / 10"]
        search_relevant_context_index_raises [of p 5 files question "1 / 10"]
      by blast
    then show "answer (fst (answer_question fmt (Inr ts) p files question))
             = Some no_information_answer
           \<and> sources (fst (answer_question fmt (Inr ts) p files question)) = []
           \<and> confidence (fst (answer_question fmt (Inr ts) p files question)) = 0"
      by (simp add: answer_question_returns RAG_generate_response_empty base_response_def)
  qed
  have backend: "client (llm_interface p) = Some c \<and> (\<forall>a prompt. \<exists>err. c a prompt = Raises err)
        \<and> ?chunks \<noteq> []
       \<longrightarrow> answer (fst (answer_question fmt (Inr ts) p files question))
             = Some (get_fallback_response question)
           \<and> confidence (fst (answer_question fmt (Inr ts) p files question))
             = sum_list (map get_similarity ?chunks) / real (length ?chunks)"
  proof
    assume h: "client (llm_interface p) = Some c \<and> (\<forall>a prompt. \<exists>err. c a prompt = Raises err)
        \<and> ?chunks \<noteq> []"
    have docs: "list_all (\<lambda>c. document c \<noteq> None) ?chunks"
      by (rule search_relevant_context_documents)
    then obtain context_text where ctx: "format_context ?chunks = Inr context_text"
      using format_context_ok by blast
    have fb: "fst (LLM_generate_response fmt (llm_interface p) question context_text True None 3)
                = Some (get_fallback_response question)"
      using h by (intro always_raising_fallback) auto
    show "answer (fst (answer_question fmt (Inr ts) p files question))
             = Some (get_fallback_response question)
           \<and> confidence (fst (answer_question fmt (Inr ts) p files question))
             = sum_list (map get_similarity ?chunks) / real (length ?chunks)"
      using h ctx fb
      by (simp add: answer_question_returns RAG_generate_response_success base_response_def
          np_mean_def)
  qed
  show ?thesis
    by (intro conjI body [THEN conjunct1] body [THEN conjunct2, THEN conjunct1]
        body [THEN conjunct2, THEN conjunct2, THEN conjunct1]
        body [THEN conjunct2, THEN conjunct2, THEN conjunct2] noerr retrieval backend)
qed

theorem answer_question_failure_handling_witness:
  "answer (fst (answer_question (\<lambda>t q c. Inr t) (Inr ''2024-01-01T00:00:00'')
                  broken_embedding_pipeline Map.empty ''How do I renew a permit?''))
       = Some no_information_answer
   \<and> confidence (fst (answer_question (\<lambda>t q c. Inr t) (Inr ''2024-01-01T00:00:00'')
                  broken_embedding_pipeline Map.empty ''How do I renew a permit?'')) = 0
   \<and> answer (fst (answer_question (\<lambda>t q c. Inr t) (Inr ''2024-01-01T00:00:00'')
                  example_pipeline Map.empty ''How do I renew a permit?''))
       = Some generic_fallback
   \<and> confidence (fst (answer_question (\<lambda>t q c. Inr t) (Inr ''2024-01-01T00:00:00'')
                  example_pipeline Map.empty ''How do I renew a permit?'')) = 45 / 100"
proof -
  let ?q = "''How do I renew a permit?''"
  have raises: "fst (generate_embeddings (embedding_manager broken_embedding_pipeline)
                  Map.empty [?q] True) = Inl (RuntimeError ''embedding model unavailable'')"
    by code_simp
  then have h1: "\<not> is_initialized broken_embedding_pipeline
        \<or> (\<exists>err. fst (generate_embeddings (embedding_manager broken_embedding_pipeline)
                         Map.empty [?q] True) = Inl err)
        \<or> (\<forall>coll. current_collection (vector_store broken_embedding_pipeline) = Some coll \<longrightarrow>
              (\<forall>qe. \<exists>err. coll qe 5 = Inl err))"
    by blast
  have cl: "client (llm_interface example_pipeline) = Some always_raising_client"
    by (simp add: example_pipeline_def llm_unreachable_def)
  have ar: "\<forall>a prompt. \<exists>err. always_raising_client a prompt = Raises err"
    by (simp add: always_raising_client_def)
  have sims: "map get_similarity (fst (search_relevant_context example_pipeline Map.empty ?q 5 (1 / 10)))
                = [6 / 10, 3 / 10]"
    by code_simp
  then have ne: "fst (search_relevant_context example_pipeline Map.empty ?q 5 (1 / 10)) \<noteq> []"
    by auto
  have len: "length (fst (search_relevant_context example_pipeline Map.empty ?q 5 (1 / 10))) = 2"
    using arg_cong [OF sims, of length] by simp
  have fb: "get_fallback_response ?q = generic_fallback"
    by code_simp
  note a = answer_question_failure_handling [of "\<lambda>t q c. Inr t" _ broken_embedding_pipeline
      Map.empty ?q "''2024-01-01T00:00:00''"]
  note b = answer_question_failure_handling [of "\<lambda>t q c. Inr t" _ example_pipeline
      Map.empty ?q "''2024-01-01T00:00:00''" always_raising_client]
  have a': "answer (fst (answer_question (\<lambda>t q c. Inr t) (Inr ''2024-01-01T00:00:00'')
                  broken_embedding_pipeline Map.empty ?q)) = Some no_information_answer
   \<and> confidence (fst (answer_question (\<lambda>t q c. Inr t) (Inr ''2024-01-01T00:00:00'')
                  broken_embedding_pipeline Map.empty ?q)) = 0"
    using a h1 by blast
  have b': "answer (fst (answer_question (\<lambda>t q c. Inr t) (Inr ''2024-01-01T00:00:00'')
                  example_pipeline Map.empty ?q)) = Some (get_fallback_response ?q)
   \<and> confidence (fst (answer_question (\<lambda>t q c. Inr t) (Inr ''2024-01-01T00:00:00'')
                  example_pipeline Map.empty ?q))
       = sum_list (map get_similarity (fst (search_relevant_context example_pipeline Map.empty ?q 5 (1 / 10))))
         / real (length (fst (search_relevant_context example_pipeline Map.empty ?q 5 (1 / 10))))"
    using b cl ar ne by blast
  show ?thesis
    using a' b' unfolding sims len fb by simp
qed

text \<open>Claim C1 as stated fails: with an embedding model that raises, the response
  has no error field and is the no-information answer; with a backend that raises
  on every attempt, the response has no error field and confidence 0.45.\<close>

theorem error_field_counterexample:
  "fst (generate_embeddings (embedding_manager broken_embedding_pipeline) Map.empty
          [''How do I renew a permit?''] True)
     = Inl (RuntimeError ''embedding model unavailable'')
   \<and> error_text (fst (answer_question (\<lambda>t q c. Inr t) (Inr ''2024-01-01T00:00:00'')
                  broken_embedding_pipeline Map.empty ''How do I renew a permit?'')) = None
   \<and> answer (fst (answer_question (\<lambda>t q c. Inr t) (Inr ''2024-01-01T00:00:00'')
                  broken_embedding_pipeline Map.empty ''How do I renew a permit?''))
       = Some no_information_answer
   \<and> client (llm_interface example_pipeline) = Some always_raising_client
   \<and> error_text (fst (answer_question (\<lambda>t q c. Inr t) (Inr ''2024-01-01T00:00:00'')
                  example_pipeline Map.empty ''How do I renew a permit?'')) = None
   \<and> confidence (fst (answer_question (\<lambda>t q c. Inr t) (Inr ''2024-01-01T00:00:00'')
                  example_pipeline Map.empty ''How do I renew a permit?'')) = 45 / 100"
proof -
  have a: "fst (generate_embeddings (embedding_manager broken_embedding_pipeline) Map.empty
          [''How do I renew a permit?''] True)
     = Inl (RuntimeError ''embedding model unavailable'')
   \<and> error_text (fst (answer_question (\<lambda>t q c. Inr t) (Inr ''2024-01-01T00:00:00'')
                  broken_embedding_pipeline Map.empty ''How do I renew a permit?'')) = None
   \<and> answer (fst (answer_question (\<lambda>t q c. Inr t) (Inr ''2024-01-01T00:00:00'')
                  broken_embedding_pipeline Map.empty ''How do I renew a permit?''))
       = Some no_information_answer"
    by code_simp
  have b: "client (llm_interface example_pipeline) = Some always_raising_client"
    by (simp add: example_pipeline_def llm_unreachable_def)
  have c: "error_text (fst (answer_question (\<lambda>t q c. Inr t) (Inr ''2024-01-01T00:00:00'')
                  example_pipeline Map.empty ''How do I renew a permit?'')) = None
   \<and> confidence (fst (answer_question (\<lambda>t q c. Inr t) (Inr ''2024-01-01T00:00:00'')
                  example_pipeline Map.empty ''How do I renew a permit?'')) = 45 / 100"
    by code_simp
  from a b c show ?thesis by simp
qed


section \<open>Properties of the embedding service\<close>

lemma load_from_cache_Some_iff:
  "load_from_cache em files texts = Some m \<longleftrightarrow>
     (\<exists>dir cached_data.
         cache_dir em = Some dir
       \<and> files (cache_file_path dir (generate_cache_key em texts)) = Some (Pickled cached_data)
       \<and> cd_model_name cached_data = Some (model_name em)
       \<and> cd_text_count cached_data = Some (length texts)
       \<and> cd_embeddings cached_data = Some m)"
  by (auto simp: load_from_cache_def split: option.splits cache_file.splits)

lemma load_after_save:
  assumes "cache_dir em = Some dir"
    and "writable em (cache_file_path dir (generate_cache_key em texts))"
  shows "load_from_cache em (save_to_cache em files texts m) texts = Some m"
  using assms by (simp add: load_from_cache_def save_to_cache_def Let_def)

text \<open>
  \<^bold>\<open>Claim C6, as the code has it.\<close> The cache key is the first 16 hexadecimal digits
  of the SHA-256 digest of the batch texts joined by \<^verbatim>\<open>|\<close>, followed by \<^verbatim>\<open>|\<close> and the
  model name. A stored entry is returned as a hit exactly when its file is found
  under that key, its stored model name is the current one and its stored text
  count is the length of the batch. The dimension of the current model plays no
  part in the decision. An entry with another model name is not returned, and an
  entry that the manager saved is found again.
\<close>

theorem cache_key_and_hit_condition:
  "generate_cache_key em texts
     = take 16 (sha256_hexdigest em (join ''|'' texts @ ''|'' @ model_name em))
   \<and> (load_from_cache em files texts = Some m \<longleftrightarrow>
        (\<exists>dir cached_data.
            cache_dir em = Some dir
          \<and> files (cache_file_path dir (generate_cache_key em texts)) = Some (Pickled cached_data)
          \<and> cd_model_name cached_data = Some (model_name em)
          \<and> cd_text_count cached_data = Some (length texts)
          \<and> cd_embeddings cached_data = Some m))
   \<and> load_from_cache (em\<lparr>embedding_dimension := d\<rparr>) files texts = load_from_cache em files texts
   \<and> (cache_dir em = Some dir'
        \<and> files (cache_file_path dir' (generate_cache_key em texts)) = Some (Pickled entry)
        \<and> cd_model_name entry \<noteq> Some (model_name em)
       \<longrightarrow> load_from_cache em files texts = None)
   \<and> (cache_dir em = Some dir'
        \<and> writable em (cache_file_path dir' (generate_cache_key em texts))
       \<longrightarrow> load_from_cache em (save_to_cache em files texts m') texts = Some m')"
proof -
  have k: "generate_cache_key em texts
     = take 16 (sha256_hexdigest em (join ''|'' texts @ ''|'' @ model_name em))"
    by (simp add: generate_cache_key_def)
  have dim: "load_from_cache (em\<lparr>embedding_dimension := d\<rparr>) files texts
               = load_from_cache em files texts"
  proof -
    have "generate_cache_key (em\<lparr>embedding_dimension := d\<rparr>) texts = generate_cache_key em texts"
      by (simp add: generate_cache_key_def)
    then show ?thesis
      by (simp add: load_from_cache_def split: option.splits cache_file.splits)
  qed
  have model: "cache_dir em = Some dir'
        \<and> files (cache_file_path dir' (generate_cache_key em texts)) = Some (Pickled entry)
        \<and> cd_model_name entry \<noteq> Some (model_name em)
       \<longrightarrow> load_from_cache em files texts = None"
    by (simp add: load_from_cache_def)
  have rt: "cache_dir em = Some dir'
        \<and> writable em (cache_file_path dir' (generate_cache_key em texts))
       \<longrightarrow> load_from_cache em (save_to_cache em files texts m') texts = Some m'"
    using load_after_save [of em dir' texts files m'] by blast
  show ?thesis
    by (intro conjI k load_from_cache_Some_iff dim model rt)
qed

theorem cache_key_and_hit_condition_witness:
  "load_from_cache example_manager
      (save_to_cache example_manager Map.empty [''hello'', ''world''] [[1, 0], [0, 1]])
      [''hello'', ''world''] = Some [[1, 0], [0, 1]]
   \<and> load_from_cache (example_manager\<lparr>model_name := ''other-model''\<rparr>) stale_cache [''hello'']
       = None"
proof -
  let ?em = "example_manager\<lparr>model_name := ''other-model''\<rparr>"
  have d: "cache_dir example_manager = Some ''data/embeddings/cache''"
    by (simp add: example_manager_def)
  have w: "writable example_manager
             (cache_file_path ''data/embeddings/cache''
                (generate_cache_key example_manager [''hello'', ''world'']))"
    by (simp add: example_manager_def)
  have d': "cache_dir ?em = Some ''data/embeddings/cache''"
    by (simp add: example_manager_def)
  have key: "generate_cache_key ?em [''hello''] = generate_cache_key example_manager [''hello'']"
    by (simp add: generate_cache_key_def example_manager_def constant_digest_def)
  have f: "stale_cache (cache_file_path ''data/embeddings/cache'' (generate_cache_key ?em [''hello'']))
             = Some (Pickled stale_entry)"
    unfolding key by (simp add: stale_cache_def)
  have n: "cd_model_name stale_entry \<noteq> Some (model_name ?em)"
    by (simp add: stale_entry_def)
  have a: "load_from_cache example_manager
      (save_to_cache example_manager Map.empty [''hello'', ''world''] [[1, 0], [0, 1]])
      [''hello'', ''world''] = Some [[1, 0], [0, 1]]"
    using cache_key_and_hit_condition [of example_manager "[''hello'', ''world'']" Map.empty _ _
        "''data/embeddings/cache''" _ "[[1, 0], [0, 1]]"] d w
    by blast
  have b: "load_from_cache ?em stale_cache [''hello''] = None"
    using cache_key_and_hit_condition [of ?em "[''hello'']" stale_cache _ _
        "''data/embeddings/cache''" stale_entry] d' f n
    by blast
  from a b show ?thesis by simp
qed

text \<open>Claim C6 as stated fails: an entry stored with dimension 3 is returned to a
  manager whose model has dimension 2, and \<^verbatim>\<open>generate_embeddings\<close> hands it out
  without encoding.\<close>

theorem dimension_mismatch_counterexample:
  "cd_embedding_dimension stale_entry = Some 3
   \<and> embedding_dimension example_manager = 2
   \<and> load_from_cache example_manager stale_cache [''hello''] = Some [[1, 2, 3]]
   \<and> generate_embeddings example_manager stale_cache [''hello''] True
       = (Inr [[1, 2, 3]], stale_cache,
          [CacheRead ''data/embeddings/cache/embeddings_9f86d081884c7d65.pkl''])"
proof -
  have a: "cd_embedding_dimension stale_entry = Some 3"
    by (simp add: stale_entry_def)
  have b: "embedding_dimension example_manager = 2"
    by (simp add: example_manager_def)
  have c: "load_from_cache example_manager stale_cache [''hello''] = Some [[1, 2, 3]]"
    by (simp add: load_from_cache_def stale_cache_def stale_entry_def example_manager_def)
  have p: "cache_file_path ''data/embeddings/cache'' (generate_cache_key example_manager [''hello''])
             = ''data/embeddings/cache/embeddings_9f86d081884c7d65.pkl''"
    by (simp add: cache_file_path_def generate_cache_key_def example_manager_def
        constant_digest_def)
  have d: "generate_embeddings example_manager stale_cache [''hello''] True
       = (Inr [[1, 2, 3]], stale_cache,
          [CacheRead ''data/embeddings/cache/embeddings_9f86d081884c7d65.pkl''])"
    using c p by (simp add: generate_embeddings_def Let_def example_manager_def)
  from a b c d show ?thesis by simp
qed

lemma sum_squares_zero_iff:
  "sum_list (map (\<lambda>x. x * x) v) = 0 \<longleftrightarrow> list_all (\<lambda>x. x = (0::real)) v"
proof (induction v)
  case Nil
  then show ?case by simp
next
  case (Cons a v)
  have nn: "0 \<le> sum_list (map (\<lambda>x. x * x) v)"
    by (rule sum_list_nonneg) auto
  have "a * a + sum_list (map (\<lambda>x. x * x) v) = 0 \<longleftrightarrow> a = 0 \<and> sum_list (map (\<lambda>x. x * x) v) = 0"
    using nn by (smt (verit) mult_eq_0_iff zero_le_square)
  with Cons show ?case by simp
qed

lemma l2_norm_zero_iff: "l2_norm v = 0 \<longleftrightarrow> list_all (\<lambda>x. x = 0) v"
  by (simp add: l2_norm_def sum_squares_zero_iff)

lemma normalized_nonzero:
  "l2_norm v \<noteq> 0 \<Longrightarrow> normalized v = map (\<lambda>x. Num (x / l2_norm v)) v"
  by (simp add: normalized_def np_divide_def)

lemma normalized_zero:
  "l2_norm v = 0 \<Longrightarrow> normalized v = replicate (length v) NaN"
proof -
  assume z: "l2_norm v = 0"
  then have "list_all (\<lambda>x. x = 0) v" by (simp add: l2_norm_zero_iff)
  then have "map (\<lambda>x. np_divide x 0) v = replicate (length v) NaN"
    by (induction v) (simp_all add: np_divide_def)
  with z show ?thesis by (simp add: normalized_def)
qed

lemma pf_dot_Num:
  "length xs = length ys \<Longrightarrow>
   pf_dot (map (\<lambda>x. Num (x / a)) xs) (map (\<lambda>y. Num (y / b)) ys) = Num (dot xs ys / (a * b))"
proof (induction xs ys rule: list_induct2)
  case Nil
  then show ?case by (simp add: dot_def)
next
  case (Cons x xs y ys)
  then show ?case by (simp add: dot_def add_divide_distrib)
qed

lemma pf_dot_NaN_left:
  "0 < n \<Longrightarrow> ys \<noteq> [] \<Longrightarrow> pf_dot (replicate n NaN) ys = NaN"
  by (cases n; cases ys) simp_all

lemma pf_add_NaN_right: "pf_add x NaN = NaN"
  by (cases x) simp_all

lemma pf_mul_NaN_right: "pf_mul x NaN = NaN"
  by (cases x) simp_all

lemma pf_dot_NaN_right:
  "0 < n \<Longrightarrow> xs \<noteq> [] \<Longrightarrow> pf_dot xs (replicate n NaN) = NaN"
  by (cases n; cases xs) (simp_all add: pf_mul_NaN_right)

lemma similarity_entry:
  assumes "length row = length q" and "q \<noteq> []"
  shows "pf_dot (normalized row) (normalized q)
           = (if l2_norm q = 0 \<or> l2_norm row = 0 then NaN else Num (cosine row q))"
proof (cases "l2_norm row = 0")
  case True
  have "normalized q \<noteq> []" using assms(2) by (simp add: normalized_def)
  moreover have "0 < length row" using assms by simp
  ultimately show ?thesis
    using True by (simp add: normalized_zero pf_dot_NaN_left)
next
  case rnz: False
  then have rne: "normalized row \<noteq> []"
    using assms by (auto simp: normalized_def)
  show ?thesis
  proof (cases "l2_norm q = 0")
    case True
    then show ?thesis
      using rne assms(2) by (simp add: normalized_zero pf_dot_NaN_right)
  next
    case False
    then show ?thesis
      using rnz assms(1) by (simp add: normalized_nonzero pf_dot_Num cosine_def)
  qed
qed

text \<open>
  \<^bold>\<open>Claim C7, as the code has it.\<close> For a non-empty query vector and document rows of
  its length, \<^verbatim>\<open>compute_similarity\<close> raises nothing and returns one score for each
  row: the dot product of the row and the query divided by the product of their
  norms when neither norm is zero, and \<open>NaN\<close> when the query or the row is a zero
  vector (the norm is zero exactly for a vector of zeros). There is no guard that
  turns the zero-vector case into 0.
\<close>

theorem compute_similarity_cosine_or_nan:
  "(query_embedding \<noteq> []
      \<and> list_all (\<lambda>row. length row = length query_embedding) document_embeddings
     \<longrightarrow> compute_similarity query_embedding document_embeddings
           = Inr (map (\<lambda>row. if l2_norm query_embedding = 0 \<or> l2_norm row = 0 then NaN
                              else Num (dot row query_embedding
                                          / (l2_norm row * l2_norm query_embedding)))
                    document_embeddings))
   \<and> (l2_norm query_embedding = 0 \<longleftrightarrow> list_all (\<lambda>x. x = 0) query_embedding)"
proof -
  have a: "query_embedding \<noteq> []
      \<and> list_all (\<lambda>row. length row = length query_embedding) document_embeddings
     \<longrightarrow> compute_similarity query_embedding document_embeddings
           = Inr (map (\<lambda>row. if l2_norm query_embedding = 0 \<or> l2_norm row = 0 then NaN
                              else Num (dot row query_embedding
                                          / (l2_norm row * l2_norm query_embedding)))
                    document_embeddings)"
  proof
    assume h: "query_embedding \<noteq> []
      \<and> list_all (\<lambda>row. length row = length query_embedding) document_embeddings"
    then have "\<And>row. row \<in> set document_embeddings \<Longrightarrow>
                 pf_dot (normalized row) (normalized query_embedding)
                   = (if l2_norm query_embedding = 0 \<or> l2_norm row = 0 then NaN
                      else Num (cosine row query_embedding))"
      by (intro similarity_entry) (auto simp: list_all_iff)
    then show "compute_similarity query_embedding document_embeddings
           = Inr (map (\<lambda>row. if l2_norm query_embedding = 0 \<or> l2_norm row = 0 then NaN
                              else Num (dot row query_embedding
                                          / (l2_norm row * l2_norm query_embedding)))
                    document_embeddings)"
      using h by (simp add: compute_similarity_def cosine_def Let_def)
  qed
  show ?thesis
    by (intro conjI a l2_norm_zero_iff)
qed

lemma norm_3_4: "l2_norm [3, 4] = 5"
  by (simp add: l2_norm_def)

lemma norm_1_0: "l2_norm [1, 0] = 1"
  by (simp add: l2_norm_def)

lemma norm_0_0: "l2_norm [0, 0] = 0"
  by (simp add: l2_norm_def)

theorem compute_similarity_cosine_or_nan_witness:
  "compute_similarity [1, 0] [[3, 4], [0, 0], [1, 0]] = Inr [Num (3 / 5), NaN, Num 1]"
proof -
  have h: "[1, 0] \<noteq> ([] :: vector)
      \<and> list_all (\<lambda>row. length row = length [1, 0 :: real]) [[3, 4], [0, 0], [1, 0]]"
    by simp
  have "compute_similarity [1, 0] [[3, 4], [0, 0], [1, 0]]
          = Inr (map (\<lambda>row. if l2_norm [1, 0] = 0 \<or> l2_norm row = 0 then NaN
                              else Num (dot row [1, 0] / (l2_norm row * l2_norm [1, 0])))
                    [[3, 4], [0, 0], [1, 0]])"
    using compute_similarity_cosine_or_nan [of "[1, 0]" "[[3, 4], [0, 0], [1, 0]]"] h by blast
  then show ?thesis
    by (simp add: norm_3_4 norm_1_0 norm_0_0 dot_def)
qed

text \<open>Claim C7 as stated fails: with a zero query, and for a zero document
  row, the score is \<open>NaN\<close>, not 0.\<close>

theorem zero_vector_counterexample:
  "compute_similarity [0, 0] [[3, 4]] = Inr [NaN]
   \<and> compute_similarity [1, 0] [[3, 4], [0, 0]] = Inr [Num (3 / 5), NaN]"
  by (simp add: compute_similarity_def normalized_def norm_3_4 norm_1_0 norm_0_0 np_divide_def)


section \<open>Properties of ingestion\<close>

lemma upt_shift: "[a..<a + b] = map (\<lambda>k. a + k) [0..<b]"
  by (induction b) simp_all

lemma retained_positions_Cons:
  "retained_positions m (x # xs)
     = (if m \<le> int (length x) then [0] else []) @ map Suc (retained_positions m xs)"
proof -
  have "[0..<length (x # xs)] = 0 # map Suc [0..<length xs]"
    by (simp add: upt_conv_Cons map_Suc_upt del: upt_Suc)
  then show ?thesis
    by (simp add: retained_positions_def filter_map comp_def)
qed

lemma process_text_chunks_index:
  "map chunk_index (process_text_chunks dp doc doc_idx i counter text_chunks)
     = map (\<lambda>j. i + j) (retained_positions (min_chunk_length dp) text_chunks)"
proof (induction text_chunks arbitrary: i counter)
  case Nil
  then show ?case by (simp add: retained_positions_def)
next
  case (Cons x xs)
  then show ?case
    by (simp add: retained_positions_Cons make_chunk_def comp_def)
qed

lemma process_text_chunks_document_id:
  "map document_id (process_text_chunks dp doc doc_idx i counter text_chunks)
     = map (\<lambda>j. ''doc_'' @ format_06d doc_idx) (retained_positions (min_chunk_length dp) text_chunks)"
proof (induction text_chunks arbitrary: i counter)
  case Nil
  then show ?case by (simp add: retained_positions_def)
next
  case (Cons x xs)
  then show ?case
    by (simp add: retained_positions_Cons make_chunk_def comp_def)
qed

lemma process_text_chunks_length:
  "length (process_text_chunks dp doc doc_idx i counter text_chunks)
     = length (retained_positions (min_chunk_length dp) text_chunks)"
  using arg_cong [OF process_text_chunks_index [of dp doc doc_idx i counter text_chunks], of length]
  by simp

lemma process_text_chunks_chunk_id:
  "map chunk_id (process_text_chunks dp doc doc_idx i counter text_chunks)
     = map (\<lambda>k. ''chunk_'' @ format_06d (counter + k))
         [0..<length (process_text_chunks dp doc doc_idx i counter text_chunks)]"
proof (induction text_chunks arbitrary: i counter)
  case Nil
  then show ?case by simp
next
  case (Cons x xs)
  show ?case
  proof (cases "min_chunk_length dp \<le> int (length x)")
    case True
    let ?n = "length (process_text_chunks dp doc doc_idx (Suc i) (Suc counter) xs)"
    have "[0..<Suc ?n] = 0 # map Suc [0..<?n]"
      by (simp add: upt_conv_Cons map_Suc_upt del: upt_Suc)
    then show ?thesis
      using True Cons [of "Suc i" "Suc counter"]
      by (simp add: make_chunk_def comp_def del: upt_Suc)
  next
    case False
    then show ?thesis
      using Cons [of "Suc i" counter] by simp
  qed
qed

lemma process_documents_fst_Cons:
  "fst (process_documents dp doc_idx counter st (doc # docs))
     = (case doc_content doc of
          None \<Rightarrow>
            fst (process_documents dp (Suc doc_idx) counter
                   (st\<lparr>processing_errors := processing_errors st + 1\<rparr>) docs)
        | Some content \<Rightarrow>
            if int (length (clean_text dp content)) < min_chunk_length dp
            then fst (process_documents dp (Suc doc_idx) counter st docs)
            else process_text_chunks dp doc doc_idx 0 counter
                   (split_text dp (clean_text dp content))
                 @ fst (process_documents dp (Suc doc_idx)
                     (counter + length (process_text_chunks dp doc doc_idx 0 counter
                                          (split_text dp (clean_text dp content))))
                     (st\<lparr>documents_processed := documents_processed st + 1\<rparr>) docs))"
  by (simp add: Let_def split: option.splits prod.splits)

lemma process_documents_chunk_id:
  "map chunk_id (fst (process_documents dp doc_idx counter st docs))
     = map (\<lambda>k. ''chunk_'' @ format_06d (counter + k))
         [0..<length (fst (process_documents dp doc_idx counter st docs))]"
proof (induction docs arbitrary: doc_idx counter st)
  case Nil
  then show ?case by simp
next
  case (Cons doc docs)
  show ?case
  proof (cases "doc_content doc")
    case None
    then show ?thesis
      using Cons by (simp add: process_documents_fst_Cons del: process_documents.simps)
  next
    case (Some content)
    show ?thesis
    proof (cases "int (length (clean_text dp content)) < min_chunk_length dp")
      case True
      then show ?thesis
        using Some Cons by (simp add: process_documents_fst_Cons del: process_documents.simps)
    next
      case False
      let ?new = "process_text_chunks dp doc doc_idx 0 counter (split_text dp (clean_text dp content))"
      let ?st = "st\<lparr>documents_processed := documents_processed st + 1\<rparr>"
      let ?more = "fst (process_documents dp (Suc doc_idx) (counter + length ?new) ?st docs)"
      have res: "fst (process_documents dp doc_idx counter st (doc # docs)) = ?new @ ?more"
        using Some False by (simp add: process_documents_fst_Cons del: process_documents.simps)
      have a: "map chunk_id ?new
                 = map (\<lambda>k. ''chunk_'' @ format_06d (counter + k)) [0..<length ?new]"
        by (rule process_text_chunks_chunk_id)
      have b: "map chunk_id ?more
                 = map (\<lambda>k. ''chunk_'' @ format_06d (counter + length ?new + k)) [0..<length ?more]"
        by (rule Cons)
      have c: "[0..<length ?new + length ?more]
                 = [0..<length ?new] @ map (\<lambda>k. length ?new + k) [0..<length ?more]"
        using upt_add_eq_append [of 0 "length ?new" "length ?more"]
        by (simp add: upt_shift [symmetric])
      have "map chunk_id (?new @ ?more)
              = map (\<lambda>k. ''chunk_'' @ format_06d (counter + k)) [0..<length ?new]
                @ map (\<lambda>k. ''chunk_'' @ format_06d (counter + k))
                    (map (\<lambda>k. length ?new + k) [0..<length ?more])"
        unfolding map_append a [symmetric] b map_map comp_def add.assoc ..
      also have "\<dots> = map (\<lambda>k. ''chunk_'' @ format_06d (counter + k))
                          [0..<length ?new + length ?more]"
        unfolding c map_append ..
      finally show ?thesis
        unfolding res length_append .
    qed
  qed
qed

lemma process_documents_positions:
  "map (\<lambda>c. (document_id c, chunk_index c)) (fst (process_documents dp doc_idx counter st docs))
     = concat (map (\<lambda>(k, doc). map (\<lambda>j. (''doc_'' @ format_06d k, j)) (document_positions dp doc))
                 (List.enumerate doc_idx docs))"
proof (induction docs arbitrary: doc_idx counter st)
  case Nil
  then show ?case by simp
next
  case (Cons doc docs)
  show ?case
  proof (cases "doc_content doc")
    case None
    then show ?thesis
      using Cons by (simp add: process_documents_fst_Cons document_positions_def del: process_documents.simps)
  next
    case (Some content)
    show ?thesis
    proof (cases "int (length (clean_text dp content)) < min_chunk_length dp")
      case True
      then show ?thesis
        using Some Cons by (simp add: process_documents_fst_Cons document_positions_def del: process_documents.simps)
    next
      case False
      let ?new = "process_text_chunks dp doc doc_idx 0 counter (split_text dp (clean_text dp content))"
      have new: "map (\<lambda>c. (document_id c, chunk_index c)) ?new
                   = map (\<lambda>j. (''doc_'' @ format_06d doc_idx, j))
                       (retained_positions (min_chunk_length dp) (split_text dp (clean_text dp content)))"
        using process_text_chunks_index [of dp doc doc_idx 0 counter "split_text dp (clean_text dp content)"]
          process_text_chunks_document_id [of dp doc doc_idx 0 counter "split_text dp (clean_text dp content)"]
        by (simp add: list_eq_iff_nth_eq)
      show ?thesis
        using Some False new Cons
        by (simp add: process_documents_fst_Cons document_positions_def del: process_documents.simps)
    qed
  qed
qed


lemma retained_positions_sorted: "sorted_wrt (<) (retained_positions m text_chunks)"
  by (simp add: retained_positions_def sorted_wrt_filter)

lemma retained_positions_bound:
  "j \<in> set (retained_positions m text_chunks) \<longleftrightarrow>
     j < length text_chunks \<and> m \<le> int (length (text_chunks ! j))"
  by (auto simp: retained_positions_def)

lemma retained_positions_prefix:
  assumes "list_all (\<lambda>t. m \<le> int (length t)) kept"
    and "list_all (\<lambda>t. int (length t) < m) dropped"
  shows "retained_positions m (kept @ dropped) = [0..<length kept]"
proof -
  have "filter (\<lambda>j. m \<le> int (length ((kept @ dropped) ! j))) [0..<length kept] = [0..<length kept]"
    using assms(1) by (auto simp: filter_id_conv list_all_length nth_append)
  moreover have "filter (\<lambda>j. m \<le> int (length ((kept @ dropped) ! j)))
                   [length kept..<length kept + length dropped] = []"
  proof -
    have "\<not> m \<le> int (length ((kept @ dropped) ! j))"
      if "j \<in> set [length kept..<length kept + length dropped]" for j
    proof -
      from that have "j - length kept < length dropped" and "\<not> j < length kept" by auto
      then show ?thesis
        using assms(2) by (simp add: list_all_length nth_append not_le)
    qed
    then show ?thesis
      by (simp only: filter_empty_conv) blast
  qed
  ultimately show ?thesis
    using upt_add_eq_append [of 0 "length kept" "length dropped"]
    by (simp add: retained_positions_def)
qed


lemma retained_positions_contiguous_only_if:
  assumes "retained_positions m text_chunks = [0..<n]"
  shows "list_all (\<lambda>t. m \<le> int (length t)) (take n text_chunks)
         \<and> list_all (\<lambda>t. int (length t) < m) (drop n text_chunks)"
proof -
  have mem: "j \<in> set [0..<n] \<longleftrightarrow> j < length text_chunks \<and> m \<le> int (length (text_chunks ! j))" for j
    using retained_positions_bound [of j m text_chunks] assms by simp
  have le: "n \<le> length text_chunks"
  proof (cases n)
    case 0
    then show ?thesis by simp
  next
    case (Suc k)
    then have "k \<in> set [0..<n]" by simp
    then have "k < length text_chunks" using mem by blast
    then show ?thesis using Suc by simp
  qed
  have kept: "list_all (\<lambda>t. m \<le> int (length t)) (take n text_chunks)"
    unfolding list_all_length
  proof (intro allI impI)
    fix j assume "j < length (take n text_chunks)"
    then have "j < n" by simp
    then have "j \<in> set [0..<n]" by simp
    then have "m \<le> int (length (text_chunks ! j))" using mem by blast
    then show "m \<le> int (length (take n text_chunks ! j))"
      using \<open>j < n\<close> by simp
  qed
  have dropped: "list_all (\<lambda>t. int (length t) < m) (drop n text_chunks)"
    unfolding list_all_length
  proof (intro allI impI)
    fix j assume j: "j < length (drop n text_chunks)"
    then have lt: "n + j < length text_chunks" by simp
    have "n + j \<notin> set [0..<n]" by simp
    then have "\<not> m \<le> int (length (text_chunks ! (n + j)))" using mem lt by blast
    then show "int (length (drop n text_chunks ! j)) < m"
      using le by simp
  qed
  from kept dropped show ?thesis by simp
qed

lemma create_chunks_fst:
  "fst (create_chunks dp docs) = fst (process_documents dp 0 0 (stats dp) docs)"
  by (simp add: create_chunks_def Let_def split: prod.splits)

text \<open>
  \<^bold>\<open>Claim C8, as the code has it.\<close> The chunks of \<^verbatim>\<open>create_chunks\<close> come document by
  document, and the \<^verbatim>\<open>chunk_index\<close> of a retained chunk is its 0-based position
  among the candidates that the splitter returned for its document: the indices of
  a document are the positions of the candidates of at least the minimum length,
  strictly increasing. They are 0, 1, 2, ... when every discarded candidate comes
  after every retained one, and only then. The chunk identifiers, which the code counts separately,
  are contiguous over the whole output.
\<close>

theorem chunk_index_is_splitter_position:
  "map (\<lambda>c. (document_id c, chunk_index c)) (fst (create_chunks dp docs))
     = concat (map (\<lambda>(k, doc). map (\<lambda>j. (''doc_'' @ format_06d k, j)) (document_positions dp doc))
                 (List.enumerate 0 docs))
   \<and> map chunk_index (process_text_chunks dp doc doc_idx 0 counter text_chunks)
       = filter (\<lambda>j. min_chunk_length dp \<le> int (length (text_chunks ! j)))
           [0..<length text_chunks]
   \<and> sorted_wrt (<) (map chunk_index (process_text_chunks dp doc doc_idx 0 counter text_chunks))
   \<and> (list_all (\<lambda>t. min_chunk_length dp \<le> int (length t)) kept
        \<and> list_all (\<lambda>t. int (length t) < min_chunk_length dp) dropped
       \<longrightarrow> map chunk_index (process_text_chunks dp doc doc_idx 0 counter (kept @ dropped))
             = [0..<length kept])
   \<and> (map chunk_index (process_text_chunks dp doc doc_idx 0 counter text_chunks) = [0..<n]
       \<longrightarrow> list_all (\<lambda>t. min_chunk_length dp \<le> int (length t)) (take n text_chunks)
           \<and> list_all (\<lambda>t. int (length t) < min_chunk_length dp) (drop n text_chunks))
   \<and> map chunk_id (fst (create_chunks dp docs))
       = map (\<lambda>k. ''chunk_'' @ format_06d k) [0..<length (fst (create_chunks dp docs))]"
proof -
  have a: "map (\<lambda>c. (document_id c, chunk_index c)) (fst (create_chunks dp docs))
     = concat (map (\<lambda>(k, doc). map (\<lambda>j. (''doc_'' @ format_06d k, j)) (document_positions dp doc))
                 (List.enumerate 0 docs))"
    unfolding create_chunks_fst by (rule process_documents_positions)
  have idx: "map chunk_index (process_text_chunks dp doc doc_idx 0 counter ts)
               = retained_positions (min_chunk_length dp) ts" for ts
    using process_text_chunks_index [of dp doc doc_idx 0 counter ts] by simp
  have b: "map chunk_index (process_text_chunks dp doc doc_idx 0 counter text_chunks)
       = filter (\<lambda>j. min_chunk_length dp \<le> int (length (text_chunks ! j)))
           [0..<length text_chunks]"
    unfolding idx retained_positions_def ..
  have c: "sorted_wrt (<) (map chunk_index (process_text_chunks dp doc doc_idx 0 counter text_chunks))"
    unfolding idx by (rule retained_positions_sorted)
  have d: "list_all (\<lambda>t. min_chunk_length dp \<le> int (length t)) kept
        \<and> list_all (\<lambda>t. int (length t) < min_chunk_length dp) dropped
       \<longrightarrow> map chunk_index (process_text_chunks dp doc doc_idx 0 counter (kept @ dropped))
             = [0..<length kept]"
    unfolding idx using retained_positions_prefix [of "min_chunk_length dp" kept dropped] by blast
  have e: "map chunk_id (fst (create_chunks dp docs))
       = map (\<lambda>k. ''chunk_'' @ format_06d k) [0..<length (fst (create_chunks dp docs))]"
    unfolding create_chunks_fst
    using process_documents_chunk_id [of dp 0 0 "stats dp" docs] by simp
  have f: "map chunk_index (process_text_chunks dp doc doc_idx 0 counter text_chunks) = [0..<n]
       \<longrightarrow> list_all (\<lambda>t. min_chunk_length dp \<le> int (length t)) (take n text_chunks)
           \<and> list_all (\<lambda>t. int (length t) < min_chunk_length dp) (drop n text_chunks)"
    unfolding idx
    using retained_positions_contiguous_only_if [of "min_chunk_length dp" text_chunks n] by blast
  show ?thesis
    by (intro conjI a b c d f e)
qed

theorem chunk_index_is_splitter_position_witness:
  "map chunk_index (process_text_chunks example_processor example_document 0 0 0
       ([''A marriage license costs 145 dollars.'', ''It is valid for 90 days.''] @ [''Fees.'']))
     = [0, 1]
   \<and> list_all (\<lambda>t. int (length t) < min_chunk_length example_processor)
        (drop 2 ([''A marriage license costs 145 dollars.'', ''It is valid for 90 days.'']
                 @ [''Fees.'']))"
proof -
  let ?kept = "[''A marriage license costs 145 dollars.'', ''It is valid for 90 days.'']"
  have h: "list_all (\<lambda>t. min_chunk_length example_processor \<le> int (length t)) ?kept
        \<and> list_all (\<lambda>t. int (length t) < min_chunk_length example_processor) [''Fees.'']"
    by (simp add: example_processor_def)
  note th = chunk_index_is_splitter_position [of example_processor "[]" example_document 0 0
      "?kept @ [''Fees.'']" ?kept "[''Fees.'']" 2]
  have two: "length ?kept = 2"
    by simp
  have runs: "map chunk_index (process_text_chunks example_processor example_document 0 0 0
                (?kept @ [''Fees.''])) = [0..<2]"
    using th h unfolding two by blast
  have tail: "list_all (\<lambda>t. int (length t) < min_chunk_length example_processor)
                (drop 2 (?kept @ [''Fees.'']))"
    using th runs by blast
  have "[0..<2] = [0, Suc 0]"
    by (simp add: upt_rec)
  with runs tail show ?thesis
    by simp
qed

text \<open>Claim C8 as stated fails: when the first candidate of a document is
  discarded, the retained chunks carry the indices 1 and 2.\<close>

theorem chunk_index_gap_counterexample:
  "split_text example_processor (clean_text example_processor
       ''Fees. A marriage license costs 145 dollars. It is valid for 90 days.'')
     = [''Fees.'', '' A marriage license costs 145 dollars.'', '' It is valid for 90 days.'']
   \<and> map (\<lambda>c. (chunk_id c, document_id c, chunk_index c, chunk_content c))
         (fst (create_chunks example_processor [example_document]))
       = [(''chunk_000000'', ''doc_000000'', 1, '' A marriage license costs 145 dollars.''),
          (''chunk_000001'', ''doc_000000'', 2, '' It is valid for 90 days.'')]"
  by code_simp


end
